theory Spec2Isabelle
  imports Main "HOL-Library.Sublist" "HOL-Library.Multiset"
begin

section \<open>Python values, exceptions and JSON serialisation\<close>

text \<open>
  The two agent modules (\<^verbatim>\<open>src/agent-mocked-tools/agent.py\<close>, the mock variant, and
  \<^verbatim>\<open>src/agent/agent.py\<close>, the persisted variant) exchange JSON-shaped Python values:
  the request payload, the parsed secrets, the fixture dictionaries and the rows that are
  serialised for the reasoning loop. Python's \<^verbatim>\<open>None\<close> is \<open>JNull\<close>; a dictionary is an
  association list in insertion order, with distinct keys as in a Python dictionary.
  Floating-point numbers are left out; strings are lists of 8-bit characters.
\<close>

datatype json =
    JNull
  | JBool bool
  | JInt int
  | JString string
  | JArray "json list"
  | JObject "(string \<times> json) list"

text \<open>
  A raised exception: \<open>exn_type\<close> is \<^verbatim>\<open>type(e).__name__\<close> and \<open>exn_str\<close> is
  \<^verbatim>\<open>str(e)\<close>, the two things the handlers of the source read from it.
\<close>

datatype exn = Exn (exn_type: string) (exn_str: string)

text \<open>
  \<^verbatim>\<open>repr\<close> of a dictionary key inside a \<^verbatim>\<open>KeyError\<close>; exact for keys without quotes,
  backslashes and control characters, which covers every key literal of the source.
\<close>

definition py_repr :: "string \<Rightarrow> string" where
  "py_repr k = [CHR 0x27] @ k @ [CHR 0x27]"

definition KeyError :: "string \<Rightarrow> exn" where
  "KeyError k = Exn ''KeyError'' (py_repr k)"

definition py_type_name :: "json \<Rightarrow> string" where
  "py_type_name v =
     (case v of JNull \<Rightarrow> ''NoneType'' | JBool _ \<Rightarrow> ''bool'' | JInt _ \<Rightarrow> ''int''
      | JString _ \<Rightarrow> ''str'' | JArray _ \<Rightarrow> ''list'' | JObject _ \<Rightarrow> ''dict'')"

text \<open>\<^verbatim>\<open>d[k]\<close> on a dictionary: \<^verbatim>\<open>KeyError\<close> when the key is missing.\<close>

definition dict_getitem :: "(string \<times> 'v) list \<Rightarrow> string \<Rightarrow> exn + 'v" where
  "dict_getitem d k = (case map_of d k of None \<Rightarrow> Inl (KeyError k) | Some v \<Rightarrow> Inr v)"

text \<open>\<^verbatim>\<open>v[k]\<close> with a string key on any value: only a dictionary supports it.\<close>

definition py_getitem :: "json \<Rightarrow> string \<Rightarrow> exn + json" where
  "py_getitem v k =
     (case v of
        JObject d \<Rightarrow> dict_getitem d k
      | JString _ \<Rightarrow> Inl (Exn ''TypeError'' ''string indices must be integers'')
      | JArray _ \<Rightarrow> Inl (Exn ''TypeError'' ''list indices must be integers or slices, not str'')
      | _ \<Rightarrow> Inl (Exn ''TypeError''
                 (py_repr (py_type_name v) @ '' object is not subscriptable'')))"

text \<open>
  \<^verbatim>\<open>v.get(k, default)\<close>: a dictionary answers, every other value has no such attribute.
\<close>

definition py_get :: "json \<Rightarrow> string \<Rightarrow> json \<Rightarrow> exn + json" where
  "py_get v k dflt =
     (case v of
        JObject d \<Rightarrow> (case map_of d k of None \<Rightarrow> Inr dflt | Some x \<Rightarrow> Inr x)
      | _ \<Rightarrow> Inl (Exn ''AttributeError''
                 (py_repr (py_type_name v) @ '' object has no attribute '' @ py_repr ''get'')))"

text \<open>Truth value of a Python object, as \<^verbatim>\<open>not user_query\<close> tests it.\<close>

definition truthy :: "json \<Rightarrow> bool" where
  "truthy v =
     (case v of JNull \<Rightarrow> False | JBool b \<Rightarrow> b | JInt i \<Rightarrow> i \<noteq> 0
      | JString s \<Rightarrow> s \<noteq> [] | JArray xs \<Rightarrow> xs \<noteq> [] | JObject d \<Rightarrow> d \<noteq> [])"

subsection \<open>\<^verbatim>\<open>json.dumps(value, indent=2)\<close>\<close>

text \<open>
  The standard encoder with \<^verbatim>\<open>ensure_ascii\<close>: inside a string literal the quote, the
  backslash and the named control characters get their two-character escapes, every
  other character outside the printable ASCII range becomes \<^verbatim>\<open>\u00XX\<close>.
\<close>

definition hexdigit :: "nat \<Rightarrow> char" where
  "hexdigit n = ''0123456789abcdef'' ! (n mod 16)"

definition escape_char :: "char \<Rightarrow> string" where
  "escape_char c =
     (if c = CHR 0x22 then [CHR 0x5C, CHR 0x22]
      else if c = CHR 0x5C then [CHR 0x5C, CHR 0x5C]
      else if c = CHR 0x0A then [CHR 0x5C, CHR ''n'']
      else if c = CHR 0x0D then [CHR 0x5C, CHR ''r'']
      else if c = CHR 0x09 then [CHR 0x5C, CHR ''t'']
      else if c = CHR 0x08 then [CHR 0x5C, CHR ''b'']
      else if c = CHR 0x0C then [CHR 0x5C, CHR ''f'']
      else if 32 \<le> (of_char c :: nat) \<and> (of_char c :: nat) \<le> 126 then [c]
      else [CHR 0x5C, CHR ''u'', CHR ''0'', CHR ''0'',
            hexdigit (of_char c div 16), hexdigit (of_char c)])"

definition encode_string :: "string \<Rightarrow> string" where
  "encode_string s = [CHR 0x22] @ concat (map escape_char s) @ [CHR 0x22]"

fun show_nat :: "nat \<Rightarrow> string" where
  "show_nat n = (if n < 10 then [hexdigit n] else show_nat (n div 10) @ [hexdigit (n mod 10)])"

definition show_int :: "int \<Rightarrow> string" where
  "show_int i = (if i < 0 then ''-'' @ show_nat (nat (- i)) else show_nat (nat i))"

fun join :: "string \<Rightarrow> string list \<Rightarrow> string" where
  "join sep [] = []"
| "join sep [x] = x"
| "join sep (x # y # ys) = x @ sep @ join sep (y # ys)"

text \<open>A line break followed by two spaces for each level of nesting.\<close>

definition newline_indent :: "nat \<Rightarrow> string" where
  "newline_indent lvl = CHR 0x0A # replicate (2 * lvl) CHR '' ''"

fun dumps_at :: "nat \<Rightarrow> json \<Rightarrow> string" where
  "dumps_at lvl JNull = ''null''"
| "dumps_at lvl (JBool b) = (if b then ''true'' else ''false'')"
| "dumps_at lvl (JInt i) = show_int i"
| "dumps_at lvl (JString s) = encode_string s"
| "dumps_at lvl (JArray xs) =
     (if xs = [] then ''[]''
      else ''['' @ newline_indent (Suc lvl)
           @ join ('','' @ newline_indent (Suc lvl)) (map (dumps_at (Suc lvl)) xs)
           @ newline_indent lvl @ '']'')"
| "dumps_at lvl (JObject kvs) =
     (if kvs = [] then ''{}''
      else ''{'' @ newline_indent (Suc lvl)
           @ join ('','' @ newline_indent (Suc lvl))
               (map (\<lambda>(k, v). encode_string k @ '': '' @ dumps_at (Suc lvl) v) kvs)
           @ newline_indent lvl @ ''}'')"

definition json_dumps :: "json \<Rightarrow> string" where
  "json_dumps v = dumps_at 0 v"

section \<open>Process state and the logger\<close>

text \<open>
  Every call that leaves the process, and every line handed to the logger, is appended
  to a trace, so that what an operation did (and did not do) can be read off the state.
  The module-level globals \<^verbatim>\<open>_db_config\<close>, \<^verbatim>\<open>_db_credentials\<close>, \<^verbatim>\<open>_db_connection\<close>,
  \<^verbatim>\<open>_openai_model\<close> and \<^verbatim>\<open>_agent\<close> are the other fields; \<^verbatim>\<open>None\<close> is \<open>None\<close>, and
  for the credentials (a parsed JSON document) it is \<open>JNull\<close>.
\<close>

type_synonym conn = nat

record db_config =
  endpoint :: string
  database :: string
  secret_arn :: string

datatype sql_query =
    StatusQuery string
  | AtRiskQuery

datatype model = OpenAIModel json string

datatype agent_handle = Agent model

datatype event =
    SsmGetParameters "string list"
  | GetSecretValue string
  | PgConnect string string json json
  | ConnRun conn sql_query
  | NewModel json string
  | NewAgent model
  | AgentCall agent_handle json
  | LogError string
  | LogInfo string

record state =
  db_config_cache :: "db_config option"
  db_credentials :: json
  db_connection :: "conn option"
  openai_model :: "model option"
  agent :: "agent_handle option"
  trace :: "event list"

definition initial_state :: state where
  "initial_state =
     \<lparr>db_config_cache = None, db_credentials = JNull, db_connection = None,
      openai_model = None, agent = None, trace = []\<rparr>"

definition emit :: "event \<Rightarrow> state \<Rightarrow> state" where
  "emit ev s = s\<lparr>trace := trace s @ [ev]\<rparr>"

definition clock :: "state \<Rightarrow> nat" where
  "clock s = length (trace s)"

definition log_error :: "string \<Rightarrow> state \<Rightarrow> state" where
  "log_error msg s = emit (LogError msg) s"

definition log_info :: "string \<Rightarrow> state \<Rightarrow> state" where
  "log_info msg s = emit (LogInfo msg) s"

section \<open>The mock directory\<close>

text \<open>
  \<^verbatim>\<open>MOCK_SHIPMENTS\<close>: three shipments keyed by reference number. The three
  \<^verbatim>\<open>occurred_at\<close> values are \<^verbatim>\<open>isoformat()\<close> strings computed from the clock when the
  module is loaded, so they are parameters here.
\<close>

type_synonym shipment = "(string \<times> json) list"

definition MOCK_SHIPMENTS :: "string \<Rightarrow> string \<Rightarrow> string \<Rightarrow> (string \<times> shipment) list" where
  "MOCK_SHIPMENTS t1 t2 t3 =
     [(''SHIP-REF-1001'',
        [(''reference_no'', JString ''SHIP-REF-1001''),
         (''status'', JString ''IN_TRANSIT''),
         (''event'', JString ''DEPARTED''),
         (''current_location'', JString ''Port of Los Angeles''),
         (''unlocode'', JString ''USLAX''),
         (''occurred_at'', JString t1),
         (''details'', JString ''Container loaded on vessel MSC MAYA'')]),
      (''SHIP-REF-1002'',
        [(''reference_no'', JString ''SHIP-REF-1002''),
         (''status'', JString ''DELIVERED''),
         (''event'', JString ''DELIVERED''),
         (''current_location'', JString ''Shanghai Distribution Center''),
         (''unlocode'', JString ''CNSHA''),
         (''occurred_at'', JString t2),
         (''details'', JString ''Delivered to consignee'')]),
      (''SHIP-REF-1003'',
        [(''reference_no'', JString ''SHIP-REF-1003''),
         (''status'', JString ''AT_RISK''),
         (''event'', JString ''DELAYED''),
         (''current_location'', JString ''Port of Singapore''),
         (''unlocode'', JString ''SGSIN''),
         (''occurred_at'', JString t3),
         (''details'', JString ''Vessel delayed due to weather conditions'')])]"

text \<open>
  The body of the mock \<^verbatim>\<open>get_shipment_status\<close> inside its \<^verbatim>\<open>try\<close>: \<open>Inl\<close> is an
  exception reaching the handler.
\<close>

definition get_shipment_status_mock_body :: "(string \<times> shipment) list \<Rightarrow> string \<Rightarrow> exn + string" where
  "get_shipment_status_mock_body M reference_no =
     (if reference_no \<in> set (map fst M)
      then (case dict_getitem M reference_no of
              Inl e \<Rightarrow> Inl e
            | Inr d \<Rightarrow> Inr (json_dumps (JObject d)))
      else Inr (''Shipment '' @ reference_no @ '' not found''))"

definition get_shipment_status_mock ::
    "(string \<times> shipment) list \<Rightarrow> state \<Rightarrow> string \<Rightarrow> string \<times> state" where
  "get_shipment_status_mock M s reference_no =
     (case get_shipment_status_mock_body M reference_no of
        Inr r \<Rightarrow> (r, s)
      | Inl e \<Rightarrow>
          (''Error retrieving shipment status: '' @ exn_str e,
           log_error (''Error in get_shipment_status: '' @ exn_type e @ '': '' @ exn_str e) s))"

text \<open>The dictionary literal appended to \<^verbatim>\<open>delayed\<close>; its subscripts are read in order.\<close>

definition delayed_entry :: "string \<Rightarrow> shipment \<Rightarrow> exn + json" where
  "delayed_entry ref_no shipment =
     (case dict_getitem shipment ''status'' of Inl e \<Rightarrow> Inl e | Inr st \<Rightarrow>
     (case dict_getitem shipment ''current_location'' of Inl e \<Rightarrow> Inl e | Inr loc \<Rightarrow>
     (case dict_getitem shipment ''event'' of Inl e \<Rightarrow> Inl e | Inr ev \<Rightarrow>
     (case dict_getitem shipment ''occurred_at'' of Inl e \<Rightarrow> Inl e | Inr occ \<Rightarrow>
     (case dict_getitem shipment ''details'' of Inl e \<Rightarrow> Inl e | Inr det \<Rightarrow>
        Inr (JObject
          [(''reference_no'', JString ref_no),
           (''status'', st),
           (''current_location'', loc),
           (''event'', ev),
           (''occurred_at'', occ),
           (''details'', det)]))))))"

text \<open>The \<^verbatim>\<open>for ref_no, shipment in MOCK_SHIPMENTS.items()\<close> loop, with its accumulator.\<close>

fun delayed_loop :: "json list \<Rightarrow> (string \<times> shipment) list \<Rightarrow> exn + json list" where
  "delayed_loop delayed [] = Inr delayed"
| "delayed_loop delayed ((ref_no, shipment) # rest) =
     (if map_of shipment ''status'' = Some (JString ''AT_RISK'')
      then (case delayed_entry ref_no shipment of
              Inl e \<Rightarrow> Inl e
            | Inr d \<Rightarrow> delayed_loop (delayed @ [d]) rest)
      else delayed_loop delayed rest)"

definition find_delayed_shipments_mock_body :: "(string \<times> shipment) list \<Rightarrow> exn + string" where
  "find_delayed_shipments_mock_body M =
     (case delayed_loop [] M of
        Inl e \<Rightarrow> Inl e
      | Inr delayed \<Rightarrow>
          Inr (if delayed = [] then ''No delayed shipments found''
               else json_dumps (JArray delayed)))"

definition find_delayed_shipments_mock ::
    "(string \<times> shipment) list \<Rightarrow> state \<Rightarrow> string \<times> state" where
  "find_delayed_shipments_mock M s =
     (case find_delayed_shipments_mock_body M of
        Inr r \<Rightarrow> (r, s)
      | Inl e \<Rightarrow>
          (''Error finding delayed shipments: '' @ exn_str e,
           log_error (''Error in find_delayed_shipments: '' @ exn_type e @ '': '' @ exn_str e) s))"

text \<open>Reading a field back from a serialised entry, and the fixture's at-risk test.\<close>

definition entry_field :: "string \<Rightarrow> json \<Rightarrow> json option" where
  "entry_field k v = (case v of JObject d \<Rightarrow> map_of d k | _ \<Rightarrow> None)"

definition is_at_risk :: "string \<times> shipment \<Rightarrow> bool" where
  "is_at_risk kv = (map_of (snd kv) ''status'' = Some (JString ''AT_RISK''))"

section \<open>The backing store of the persisted directory\<close>

text \<open>
  The tables and views the two SQL statements of \<^verbatim>\<open>src/agent/agent.py\<close> read. Their
  contents are owned by the database; every column may be \<^verbatim>\<open>NULL\<close> (\<open>None\<close>). A
  timestamp is a point on the time line, an integer.
\<close>

record shipment_row =
  s_shipment_id :: "int option"
  s_reference_no :: "string option"
  s_status :: "string option"

record latest_event_row =
  le_shipment_id :: "int option"
  le_event :: "string option"
  le_location_id :: "int option"
  le_occurred_at :: "int option"
  le_details :: "string option"

record location_row =
  loc_location_id :: "int option"
  loc_name :: "string option"
  loc_unlocode :: "string option"

record eta_risk_row =
  r_reference_no :: "string option"
  r_eta :: "int option"
  r_eta_final :: "int option"
  r_eta_status :: "string option"

record database =
  shipments :: "shipment_row list"
  v_shipment_latest_event :: "latest_event_row list"
  locations :: "location_row list"
  mv_eta_risk :: "eta_risk_row list"

datatype sql_value = SqlNull | SqlText string | SqlTimestamp int

definition sql_text :: "string option \<Rightarrow> sql_value" where
  "sql_text v = (case v of None \<Rightarrow> SqlNull | Some t \<Rightarrow> SqlText t)"

definition sql_timestamp :: "int option \<Rightarrow> sql_value" where
  "sql_timestamp v = (case v of None \<Rightarrow> SqlNull | Some t \<Rightarrow> SqlTimestamp t)"

text \<open>SQL equality: true only when both sides are present and equal.\<close>

definition sql_eq :: "'a option \<Rightarrow> 'a option \<Rightarrow> bool" where
  "sql_eq a b = (case a of None \<Rightarrow> False | Some x \<Rightarrow> b = Some x)"

text \<open>
  \<^verbatim>\<open>FROM logistics.shipments s
  JOIN logistics.v_shipment_latest_event le ON le.shipment_id = s.shipment_id
  LEFT JOIN logistics.locations loc ON loc.location_id = le.location_id\<close>
\<close>

definition left_join_locations ::
    "location_row list \<Rightarrow> latest_event_row \<Rightarrow> location_row option list" where
  "left_join_locations locs le =
     (let matching = filter (\<lambda>loc. sql_eq (loc_location_id loc) (le_location_id le)) locs
      in if matching = [] then [None] else map Some matching)"

definition status_join ::
    "database \<Rightarrow> (shipment_row \<times> latest_event_row \<times> location_row option) list" where
  "status_join db =
     concat (map (\<lambda>s.
       concat (map (\<lambda>le.
         if sql_eq (le_shipment_id le) (s_shipment_id s)
         then map (\<lambda>loc. (s, le, loc)) (left_join_locations (locations db) le)
         else [])
       (v_shipment_latest_event db)))
     (shipments db))"

text \<open>
  \<^verbatim>\<open>SELECT s.reference_no, s.status, le.event, loc.name AS current_location,
  loc.unlocode, le.occurred_at, le.details\<close>
\<close>

definition status_columns ::
    "shipment_row \<times> latest_event_row \<times> location_row option \<Rightarrow> sql_value list" where
  "status_columns j =
     (case j of (s, le, loc) \<Rightarrow>
        [sql_text (s_reference_no s),
         sql_text (s_status s),
         sql_text (le_event le),
         sql_text (case loc of None \<Rightarrow> None | Some l \<Rightarrow> loc_name l),
         sql_text (case loc of None \<Rightarrow> None | Some l \<Rightarrow> loc_unlocode l),
         sql_timestamp (le_occurred_at le),
         sql_text (le_details le)])"

text \<open>\<^verbatim>\<open>WHERE s.reference_no = :reference_no\<close>\<close>

definition status_query :: "database \<Rightarrow> string \<Rightarrow> sql_value list list" where
  "status_query db reference_no =
     map status_columns
       (filter (\<lambda>j. sql_eq (s_reference_no (fst j)) (Some reference_no)) (status_join db))"

text \<open>
  \<^verbatim>\<open>ORDER BY r.eta DESC NULLS LAST\<close>: \<open>eta_precedes a b\<close> says that a row with ETA \<open>a\<close>
  may stand before a row with ETA \<open>b\<close>. The order among rows with equal ETA is the
  database's choice; the model keeps the order of the view.
\<close>

definition eta_precedes :: "int option \<Rightarrow> int option \<Rightarrow> bool" where
  "eta_precedes a b =
     (case b of None \<Rightarrow> True | Some y \<Rightarrow> (case a of None \<Rightarrow> False | Some x \<Rightarrow> y \<le> x))"

fun insert_by_eta :: "eta_risk_row \<Rightarrow> eta_risk_row list \<Rightarrow> eta_risk_row list" where
  "insert_by_eta r [] = [r]"
| "insert_by_eta r (x # xs) =
     (if eta_precedes (r_eta r) (r_eta x) then r # x # xs else x # insert_by_eta r xs)"

definition order_by_eta_desc_nulls_last :: "eta_risk_row list \<Rightarrow> eta_risk_row list" where
  "order_by_eta_desc_nulls_last rows = foldr insert_by_eta rows []"

text \<open>
  \<^verbatim>\<open>SELECT r.reference_no, r.eta, r.eta_final, r.eta_status
  FROM logistics.mv_eta_risk r WHERE r.eta_status = 'AT_RISK'
  ORDER BY r.eta DESC NULLS LAST\<close>
\<close>

definition at_risk_rows :: "database \<Rightarrow> eta_risk_row list" where
  "at_risk_rows db =
     order_by_eta_desc_nulls_last
       (filter (\<lambda>r. sql_eq (r_eta_status r) (Some ''AT_RISK'')) (mv_eta_risk db))"

definition risk_columns :: "eta_risk_row \<Rightarrow> sql_value list" where
  "risk_columns r =
     [sql_text (r_reference_no r), sql_timestamp (r_eta r),
      sql_timestamp (r_eta_final r), sql_text (r_eta_status r)]"

definition at_risk_query :: "database \<Rightarrow> sql_value list list" where
  "at_risk_query db = map risk_columns (at_risk_rows db)"

definition eval_query :: "database \<Rightarrow> sql_query \<Rightarrow> sql_value list list" where
  "eval_query db q =
     (case q of StatusQuery reference_no \<Rightarrow> status_query db reference_no
      | AtRiskQuery \<Rightarrow> at_risk_query db)"

text \<open>A list of ETAs in descending order with the missing ones last.\<close>

fun eta_desc_nulls_last :: "int option list \<Rightarrow> bool" where
  "eta_desc_nulls_last [] = True"
| "eta_desc_nulls_last (a # rest) = (list_all (eta_precedes a) rest \<and> eta_desc_nulls_last rest)"

section \<open>The world outside the process\<close>

text \<open>
  What the parameter store, the secret store, the database server, the model SDK and the
  reasoning engine answer is not the program's to decide. Every answer is indexed by the
  moment of the call (\<open>clock\<close>, the length of the trace), so that two calls of one
  operation can be answered differently.

  \<^item> \<open>ssm_get_parameters\<close>: the \<^verbatim>\<open>Parameters\<close> of \<^verbatim>\<open>get_parameters\<close>, as name/value pairs;
  \<^item> \<open>get_secret_json\<close>: \<^verbatim>\<open>json.loads(get_secret_value(SecretId)['SecretString'])\<close>;
  \<^item> \<open>pg_connect\<close>: \<^verbatim>\<open>pg8000.native.Connection(host, database, user, password)\<close>;
  \<^item> \<open>run_fault\<close>: the exception \<^verbatim>\<open>conn.run\<close> raises, if any, and \<open>db_at\<close> the data
    it reads otherwise;
  \<^item> \<open>show_timestamp\<close>: \<^verbatim>\<open>str\<close> of a timestamp value, as \<^verbatim>\<open>default=str\<close> applies it;
  \<^item> \<open>model_fault\<close>, \<open>agent_fault\<close>: an exception of the two constructors, if any;
  \<^item> \<open>agent_engine\<close>: what the reasoning loop does with a question.
\<close>

datatype content_block = ContentBlock (block_text: "string option")

type_synonym message = "content_block list"

text \<open>
  The reasoning loop is a strategy: it ends with a message or an exception, or calls one
  of the two tools and continues with the string the tool returned.
\<close>

datatype engine =
    Finish "exn + message"
  | CallStatus string "string \<Rightarrow> engine"
  | CallDelayed "string \<Rightarrow> engine"

record world =
  ssm_get_parameters :: "nat \<Rightarrow> string list \<Rightarrow> exn + (string \<times> string) list"
  get_secret_json :: "nat \<Rightarrow> string \<Rightarrow> exn + json"
  pg_connect :: "nat \<Rightarrow> string \<Rightarrow> string \<Rightarrow> json \<Rightarrow> json \<Rightarrow> exn + conn"
  run_fault :: "nat \<Rightarrow> conn \<Rightarrow> exn option"
  db_at :: "nat \<Rightarrow> database"
  show_timestamp :: "int \<Rightarrow> string"
  model_fault :: "nat \<Rightarrow> exn option"
  agent_fault :: "nat \<Rightarrow> exn option"
  agent_engine :: "nat \<Rightarrow> agent_handle \<Rightarrow> json \<Rightarrow> engine"

section \<open>The persisted directory\<close>

definition AWS_REGION :: string where
  "AWS_REGION = ''us-east-1''"

definition OPENAI_SECRET_NAME :: string where
  "OPENAI_SECRET_NAME = ''openai-api-key''"

definition db_parameter_names :: "string list" where
  "db_parameter_names =
     [''/agentcore/rds/endpoint'', ''/agentcore/rds/database'', ''/agentcore/rds/secret-arn'']"

text \<open>
  \<^verbatim>\<open>params = {p['Name']: p['Value'] for p in response['Parameters']}\<close> followed by the
  three subscripts of the \<^verbatim>\<open>_db_config\<close> literal; a later pair of the same name wins.
\<close>

definition build_db_config :: "(string \<times> string) list \<Rightarrow> exn + db_config" where
  "build_db_config ps =
     (let params = rev ps in
      case dict_getitem params ''/agentcore/rds/endpoint'' of Inl e \<Rightarrow> Inl e | Inr ep \<Rightarrow>
     (case dict_getitem params ''/agentcore/rds/database'' of Inl e \<Rightarrow> Inl e | Inr dbn \<Rightarrow>
     (case dict_getitem params ''/agentcore/rds/secret-arn'' of Inl e \<Rightarrow> Inl e | Inr arn \<Rightarrow>
        Inr \<lparr>endpoint = ep, database = dbn, secret_arn = arn\<rparr>)))"

text \<open>
  \<^verbatim>\<open>_load_db_config\<close>. The handler logs and re-raises. \<^verbatim>\<open>_db_config\<close> is assigned as
  soon as the parameters are read, before the secret is asked for.
\<close>

definition load_db_config_failed :: "exn \<Rightarrow> state \<Rightarrow> (exn + db_config \<times> json) \<times> state" where
  "load_db_config_failed e s =
     (Inl e, log_error (''Failed to load database configuration: '' @ exn_str e) s)"

definition load_db_config :: "world \<Rightarrow> state \<Rightarrow> (exn + db_config \<times> json) \<times> state" where
  "load_db_config w s =
     (case db_config_cache s of
        Some cfg \<Rightarrow> (Inr (cfg, db_credentials s), s)
      | None \<Rightarrow>
          (let s1 = emit (SsmGetParameters db_parameter_names) s in
           case ssm_get_parameters w (clock s) db_parameter_names of
             Inl e \<Rightarrow> load_db_config_failed e s1
           | Inr ps \<Rightarrow>
               (case build_db_config ps of
                  Inl e \<Rightarrow> load_db_config_failed e s1
                | Inr cfg \<Rightarrow>
                    (let s2 = s1\<lparr>db_config_cache := Some cfg\<rparr>;
                         s3 = emit (GetSecretValue (secret_arn cfg)) s2 in
                     case get_secret_json w (clock s2) (secret_arn cfg) of
                       Inl e \<Rightarrow> load_db_config_failed e s3
                     | Inr creds \<Rightarrow>
                         (Inr (cfg, creds), s3\<lparr>db_credentials := creds\<rparr>)))))"

text \<open>\<^verbatim>\<open>get_db_connection\<close>: the cached handle, or a new connection; logs and re-raises.\<close>

definition db_connection_failed :: "exn \<Rightarrow> state \<Rightarrow> (exn + conn) \<times> state" where
  "db_connection_failed e s =
     (Inl e, log_error (''Database connection failed: '' @ exn_type e @ '': '' @ exn_str e) s)"

definition get_db_connection :: "world \<Rightarrow> state \<Rightarrow> (exn + conn) \<times> state" where
  "get_db_connection w s =
     (case db_connection s of
        Some c \<Rightarrow> (Inr c, s)
      | None \<Rightarrow>
          (case load_db_config w s of
             (Inl e, s1) \<Rightarrow> db_connection_failed e s1
           | (Inr (config, credentials), s1) \<Rightarrow>
               (case py_getitem credentials ''username'' of
                  Inl e \<Rightarrow> db_connection_failed e s1
                | Inr user \<Rightarrow>
                    (case py_getitem credentials ''password'' of
                       Inl e \<Rightarrow> db_connection_failed e s1
                     | Inr password \<Rightarrow>
                         (let s2 = emit (PgConnect (endpoint config) (database config)
                                           user password) s1 in
                          case pg_connect w (clock s1) (endpoint config) (database config)
                                 user password of
                            Inl e \<Rightarrow> db_connection_failed e s2
                          | Inr c \<Rightarrow> (Inr c, s2\<lparr>db_connection := Some c\<rparr>))))))"

text \<open>\<^verbatim>\<open>conn.run(query, ...)\<close>: one round trip; a fault of the store is an exception.\<close>

definition conn_run ::
    "world \<Rightarrow> state \<Rightarrow> conn \<Rightarrow> sql_query \<Rightarrow> (exn + sql_value list list) \<times> state" where
  "conn_run w s c q =
     (let s1 = emit (ConnRun c q) s in
      case run_fault w (clock s) c of
        Some e \<Rightarrow> (Inl e, s1)
      | None \<Rightarrow> (Inr (eval_query (db_at w (clock s)) q), s1))"

text \<open>A row as \<^verbatim>\<open>json.dumps(..., default=str)\<close> sees it.\<close>

definition sql_json :: "world \<Rightarrow> sql_value \<Rightarrow> json" where
  "sql_json w v =
     (case v of SqlNull \<Rightarrow> JNull | SqlText t \<Rightarrow> JString t
      | SqlTimestamp t \<Rightarrow> JString (show_timestamp w t))"

definition row_json :: "world \<Rightarrow> sql_value list \<Rightarrow> json" where
  "row_json w row = JArray (map (sql_json w) row)"

text \<open>The bodies of the two tools inside their \<^verbatim>\<open>try\<close>, and the tools with their handlers.\<close>

definition get_shipment_status_body :: "world \<Rightarrow> state \<Rightarrow> string \<Rightarrow> (exn + string) \<times> state" where
  "get_shipment_status_body w s reference_no =
     (case get_db_connection w s of
        (Inl e, s1) \<Rightarrow> (Inl e, s1)
      | (Inr conn, s1) \<Rightarrow>
          (case conn_run w s1 conn (StatusQuery reference_no) of
             (Inl e, s2) \<Rightarrow> (Inl e, s2)
           | (Inr result, s2) \<Rightarrow>
               (case result of
                  row # _ \<Rightarrow> (Inr (json_dumps (row_json w row)), s2)
                | [] \<Rightarrow> (Inr (''Shipment '' @ reference_no @ '' not found''), s2))))"

definition get_shipment_status :: "world \<Rightarrow> state \<Rightarrow> string \<Rightarrow> string \<times> state" where
  "get_shipment_status w s reference_no =
     (case get_shipment_status_body w s reference_no of
        (Inr r, s1) \<Rightarrow> (r, s1)
      | (Inl e, s1) \<Rightarrow>
          (''Error retrieving shipment status: '' @ exn_str e,
           log_error (''Error in get_shipment_status: '' @ exn_type e @ '': '' @ exn_str e) s1))"

definition find_delayed_shipments_body :: "world \<Rightarrow> state \<Rightarrow> (exn + string) \<times> state" where
  "find_delayed_shipments_body w s =
     (case get_db_connection w s of
        (Inl e, s1) \<Rightarrow> (Inl e, s1)
      | (Inr conn, s1) \<Rightarrow>
          (case conn_run w s1 conn AtRiskQuery of
             (Inl e, s2) \<Rightarrow> (Inl e, s2)
           | (Inr results, s2) \<Rightarrow>
               (if results \<noteq> []
                then (Inr (json_dumps (JArray (map (row_json w) results))), s2)
                else (Inr ''No delayed shipments found'', s2))))"

definition find_delayed_shipments :: "world \<Rightarrow> state \<Rightarrow> string \<times> state" where
  "find_delayed_shipments w s =
     (case find_delayed_shipments_body w s of
        (Inr r, s1) \<Rightarrow> (r, s1)
      | (Inl e, s1) \<Rightarrow>
          (''Error finding delayed shipments: '' @ exn_str e,
           log_error (''Error in find_delayed_shipments: '' @ exn_type e @ '': '' @ exn_str e) s1))"

section \<open>The query assistant and its entrypoint\<close>

text \<open>
  Both modules define the same \<^verbatim>\<open>_get_openai_model\<close>, \<^verbatim>\<open>_initialize_agent\<close> and
  \<^verbatim>\<open>logistics_query\<close>; they differ in the model identifier and in the two tools handed
  to the agent.
\<close>

datatype variant =
    MockTools "(string \<times> shipment) list"
  | DatabaseTools

definition model_id :: "variant \<Rightarrow> string" where
  "model_id v = (case v of MockTools _ \<Rightarrow> ''gpt-4o-mini'' | DatabaseTools \<Rightarrow> ''gpt-4o'')"

definition tool_get_shipment_status ::
    "variant \<Rightarrow> world \<Rightarrow> state \<Rightarrow> string \<Rightarrow> string \<times> state" where
  "tool_get_shipment_status v w s reference_no =
     (case v of MockTools M \<Rightarrow> get_shipment_status_mock M s reference_no
      | DatabaseTools \<Rightarrow> get_shipment_status w s reference_no)"

definition tool_find_delayed_shipments :: "variant \<Rightarrow> world \<Rightarrow> state \<Rightarrow> string \<times> state" where
  "tool_find_delayed_shipments v w s =
     (case v of MockTools M \<Rightarrow> find_delayed_shipments_mock M s
      | DatabaseTools \<Rightarrow> find_delayed_shipments w s)"

definition get_openai_model_failed :: "exn \<Rightarrow> state \<Rightarrow> (exn + model) \<times> state" where
  "get_openai_model_failed e s =
     (Inl e, log_error (''Failed to initialize OpenAI model: '' @ exn_str e) s)"

definition get_openai_model :: "variant \<Rightarrow> world \<Rightarrow> state \<Rightarrow> (exn + model) \<times> state" where
  "get_openai_model v w s =
     (case openai_model s of
        Some m \<Rightarrow> (Inr m, s)
      | None \<Rightarrow>
          (let s1 = emit (GetSecretValue OPENAI_SECRET_NAME) s in
           case get_secret_json w (clock s) OPENAI_SECRET_NAME of
             Inl e \<Rightarrow> get_openai_model_failed e s1
           | Inr secret_data \<Rightarrow>
               (case py_get secret_data ''openai-api-key'' (JString ''Not found'') of
                  Inl e \<Rightarrow> get_openai_model_failed e s1
                | Inr api_key \<Rightarrow>
                    (let s2 = emit (NewModel api_key (model_id v)) s1 in
                     case model_fault w (clock s1) of
                       Some e \<Rightarrow> get_openai_model_failed e s2
                     | None \<Rightarrow>
                         (let m = OpenAIModel api_key (model_id v) in
                          (Inr m,
                           log_info ''OpenAI model initialized successfully''
                             (s2\<lparr>openai_model := Some m\<rparr>)))))))"

definition initialize_agent :: "variant \<Rightarrow> world \<Rightarrow> state \<Rightarrow> (exn + agent_handle) \<times> state" where
  "initialize_agent v w s =
     (case agent s of
        Some a \<Rightarrow> (Inr a, s)
      | None \<Rightarrow>
          (case get_openai_model v w s of
             (Inl e, s1) \<Rightarrow> (Inl e, s1)
           | (Inr m, s1) \<Rightarrow>
               (let s2 = emit (NewAgent m) s1 in
                case agent_fault w (clock s1) of
                  Some e \<Rightarrow> (Inl e, s2)
                | None \<Rightarrow> (Inr (Agent m), s2\<lparr>agent := Some (Agent m)\<rparr>))))"

text \<open>\<^verbatim>\<open>agent(user_query)\<close>: the engine runs, calling the tools of the variant as it asks.\<close>

primrec run_engine :: "variant \<Rightarrow> world \<Rightarrow> engine \<Rightarrow> state \<Rightarrow> (exn + message) \<times> state" where
  "run_engine v w (Finish r) = (\<lambda>s. (r, s))"
| "run_engine v w (CallStatus reference_no k) =
     (\<lambda>s. case tool_get_shipment_status v w s reference_no of
             (out, s1) \<Rightarrow> run_engine v w (k out) s1)"
| "run_engine v w (CallDelayed k) =
     (\<lambda>s. case tool_find_delayed_shipments v w s of
             (out, s1) \<Rightarrow> run_engine v w (k out) s1)"

text \<open>\<^verbatim>\<open>result.message['content'][0]['text']\<close>\<close>

definition first_text :: "message \<Rightarrow> exn + string" where
  "first_text content =
     (case content of
        [] \<Rightarrow> Inl (Exn ''IndexError'' ''list index out of range'')
      | b # _ \<Rightarrow> (case block_text b of None \<Rightarrow> Inl (KeyError ''text'') | Some t \<Rightarrow> Inr t))"

definition usage_hint :: string where
  \<open>usage_hint = ''Please provide a query in the format: {"query": "your question here"}''\<close>

definition query_failed :: "exn \<Rightarrow> state \<Rightarrow> (exn + string) \<times> state" where
  "query_failed e s =
     (Inr (''Query failed: '' @ exn_str e),
      log_error (''Query failed: '' @ exn_type e @ '': '' @ exn_str e) s)"

text \<open>The statements of \<^verbatim>\<open>logistics_query\<close> inside its \<^verbatim>\<open>try\<close>.\<close>

definition logistics_query_body ::
    "variant \<Rightarrow> world \<Rightarrow> state \<Rightarrow> json \<Rightarrow> (exn + string) \<times> state" where
  "logistics_query_body v w s user_query =
     (case initialize_agent v w s of
        (Inl e, s1) \<Rightarrow> (Inl e, s1)
      | (Inr a, s1) \<Rightarrow>
          (case run_engine v w (agent_engine w (clock s1) a user_query)
                  (emit (AgentCall a user_query) s1) of
             (Inl e, s2) \<Rightarrow> (Inl e, s2)
           | (Inr content, s2) \<Rightarrow>
               (case first_text content of
                  Inl e \<Rightarrow> (Inl e, s2)
                | Inr t \<Rightarrow> (Inr t, s2))))"

text \<open>
  \<^verbatim>\<open>logistics_query(payload)\<close>. \<open>Inl\<close> is an exception that leaves the function; the
  first statement, \<^verbatim>\<open>payload.get("query")\<close>, stands before the \<^verbatim>\<open>try\<close>.
\<close>

definition logistics_query :: "variant \<Rightarrow> world \<Rightarrow> state \<Rightarrow> json \<Rightarrow> (exn + string) \<times> state" where
  "logistics_query v w s payload =
     (case py_get payload ''query'' JNull of
        Inl e \<Rightarrow> (Inl e, s)
      | Inr user_query \<Rightarrow>
          (if \<not> truthy user_query then (Inr usage_hint, s)
           else
             (case logistics_query_body v w s user_query of
                (Inl e, s1) \<Rightarrow> query_failed e s1
              | (Inr t, s1) \<Rightarrow> (Inr t, s1))))"

text \<open>
  A reference is known to the persisted directory when the status statement has a row for
  it: a shipment with that reference number and a latest event.
\<close>

definition known_reference :: "database \<Rightarrow> string \<Rightarrow> bool" where
  "known_reference db reference_no =
     list_ex (\<lambda>s. s_reference_no s = Some reference_no
                \<and> list_ex (\<lambda>le. sql_eq (le_shipment_id le) (s_shipment_id s))
                     (v_shipment_latest_event db))
       (shipments db)"

text \<open>The ETA of a serialised mock entry: the entries of the mock have no such field.\<close>

definition entry_eta :: "json \<Rightarrow> int option" where
  "entry_eta d = (case entry_field ''eta'' d of Some (JInt t) \<Rightarrow> Some t | _ \<Rightarrow> None)"

section \<open>A concrete store and concrete worlds\<close>

text \<open>
  A small database and a world in which every service answers, used to run the
  operations on concrete inputs; the variants below break one service each.
\<close>

definition example_database :: database where
  "example_database =
     \<lparr>shipments =
        [\<lparr>s_shipment_id = Some 1, s_reference_no = Some ''ACME-REF-1001'',
          s_status = Some ''IN_TRANSIT''\<rparr>,
         \<lparr>s_shipment_id = Some 2, s_reference_no = Some ''ACME-REF-1002'',
          s_status = Some ''AT_RISK''\<rparr>],
      v_shipment_latest_event =
        [\<lparr>le_shipment_id = Some 1, le_event = Some ''DEPARTED'', le_location_id = Some 10,
          le_occurred_at = Some 1000, le_details = Some ''Loaded on vessel''\<rparr>,
         \<lparr>le_shipment_id = Some 2, le_event = Some ''DELAYED'', le_location_id = None,
          le_occurred_at = Some 1200, le_details = None\<rparr>],
      locations =
        [\<lparr>loc_location_id = Some 10, loc_name = Some ''Port of Los Angeles'',
          loc_unlocode = Some ''USLAX''\<rparr>],
      mv_eta_risk =
        [\<lparr>r_reference_no = Some ''ACME-REF-1002'', r_eta = Some 500,
          r_eta_final = Some 800, r_eta_status = Some ''AT_RISK''\<rparr>,
         \<lparr>r_reference_no = Some ''ACME-REF-1003'', r_eta = None,
          r_eta_final = None, r_eta_status = Some ''AT_RISK''\<rparr>,
         \<lparr>r_reference_no = Some ''ACME-REF-1001'', r_eta = Some 700,
          r_eta_final = Some 700, r_eta_status = Some ''ON_TIME''\<rparr>,
         \<lparr>r_reference_no = Some ''ACME-REF-1004'', r_eta = Some 900,
          r_eta_final = Some 950, r_eta_status = Some ''AT_RISK''\<rparr>]\<rparr>"

definition example_world :: world where
  "example_world =
     \<lparr>ssm_get_parameters = (\<lambda>n names.
        Inr [(''/agentcore/rds/endpoint'', ''db.internal''),
             (''/agentcore/rds/database'', ''logistics''),
             (''/agentcore/rds/secret-arn'', ''arn:db-secret'')]),
      get_secret_json = (\<lambda>n secret_id.
        if secret_id = ''arn:db-secret''
        then Inr (JObject [(''username'', JString ''agent''), (''password'', JString ''pw'')])
        else Inr (JObject [(''openai-api-key'', JString ''sk-test'')])),
      pg_connect = (\<lambda>n host dbname user password. Inr 7),
      run_fault = (\<lambda>n c. None),
      db_at = (\<lambda>n. example_database),
      show_timestamp = show_int,
      model_fault = (\<lambda>n. None),
      agent_fault = (\<lambda>n. None),
      agent_engine = (\<lambda>n a q.
        CallDelayed (\<lambda>out. Finish (Inr [ContentBlock (Some out)])))\<rparr>"

definition network_error :: exn where
  "network_error = Exn ''InterfaceError'' ''network error''"

text \<open>The secret store is down; the parameter store answers.\<close>

definition secret_outage_world :: world where
  "secret_outage_world = example_world\<lparr>get_secret_json := (\<lambda>n secret_id. Inl network_error)\<rparr>"

text \<open>Every query on every connection fails.\<close>

definition broken_store_world :: world where
  "broken_store_world = example_world\<lparr>run_fault := (\<lambda>n c. Some network_error)\<rparr>"

text \<open>A state of the process in which the connection \<open>7\<close> is already cached.\<close>

definition connected_state :: state where
  "connected_state =
     initial_state\<lparr>
       db_config_cache :=
         Some \<lparr>endpoint = ''db.internal'', database = ''logistics'', secret_arn = ''arn:db-secret''\<rparr>,
       db_credentials := JObject [(''username'', JString ''agent''), (''password'', JString ''pw'')],
       db_connection := Some 7\<rparr>"

section \<open>The at-risk query of the mock directory\<close>

lemma delayed_entry_fields:
  assumes "delayed_entry ref_no sh = Inr d"
  shows "entry_field ''reference_no'' d = Some (JString ref_no)"
    and "entry_field ''status'' d = map_of sh ''status''"
    and "entry_field ''eta'' d = None"
  using assms
  by (auto simp: delayed_entry_def dict_getitem_def entry_field_def split: option.splits)

text \<open>
  Whatever the fixture, the loop appends one entry for each key whose shipment has the
  status \<^verbatim>\<open>AT_RISK\<close>, in the order of the dictionary, and nothing else.
\<close>

lemma delayed_loop_refs:
  "delayed_loop acc M = Inr ds \<Longrightarrow>
     map (entry_field ''reference_no'') ds =
       map (entry_field ''reference_no'') acc @
       map (\<lambda>kv. Some (JString (fst kv))) (filter is_at_risk M)"
proof (induction acc M rule: delayed_loop.induct)
  case (1 delayed)
  then show ?case by simp
next
  case (2 delayed ref_no shipment rest)
  show ?case
  proof (cases "map_of shipment ''status'' = Some (JString ''AT_RISK'')")
    case True
    then obtain d where d: "delayed_entry ref_no shipment = Inr d"
      and loop: "delayed_loop (delayed @ [d]) rest = Inr ds"
      using "2.prems" by (auto split: sum.splits)
    from "2.IH"(1) [OF True d loop] delayed_entry_fields(1) [OF d] True
    show ?thesis by (simp add: is_at_risk_def)
  next
    case False
    then have "delayed_loop delayed rest = Inr ds" using "2.prems" by simp
    from "2.IH"(2) [OF False this] False show ?thesis by (simp add: is_at_risk_def)
  qed
qed

lemma delayed_loop_all:
  assumes "\<And>ref_no sh d. map_of sh ''status'' = Some (JString ''AT_RISK'') \<Longrightarrow>
             delayed_entry ref_no sh = Inr d \<Longrightarrow> P d"
  shows "delayed_loop acc M = Inr ds \<Longrightarrow> list_all P acc \<Longrightarrow> list_all P ds"
proof (induction acc M rule: delayed_loop.induct)
  case (1 delayed)
  then show ?case by simp
next
  case (2 delayed ref_no shipment rest)
  show ?case
  proof (cases "map_of shipment ''status'' = Some (JString ''AT_RISK'')")
    case True
    then obtain d where d: "delayed_entry ref_no shipment = Inr d"
      and loop: "delayed_loop (delayed @ [d]) rest = Inr ds"
      using "2.prems" by (auto split: sum.splits)
    have "list_all P (delayed @ [d])" using "2.prems"(2) assms [OF True d] by simp
    from "2.IH"(1) [OF True d loop this] show ?thesis .
  next
    case False
    then have "delayed_loop delayed rest = Inr ds" using "2.prems" by simp
    from "2.IH"(2) [OF False this "2.prems"(2)] show ?thesis .
  qed
qed

lemma mock_delayed_loop:
  "delayed_loop [] (MOCK_SHIPMENTS t1 t2 t3) =
     Inr [JObject
       [(''reference_no'', JString ''SHIP-REF-1003''),
        (''status'', JString ''AT_RISK''),
        (''current_location'', JString ''Port of Singapore''),
        (''event'', JString ''DELAYED''),
        (''occurred_at'', JString t3),
        (''details'', JString ''Vessel delayed due to weather conditions'')]]"
  by (simp add: MOCK_SHIPMENTS_def delayed_entry_def dict_getitem_def)

lemma mock_at_risk_keys:
  "map fst (filter is_at_risk (MOCK_SHIPMENTS t1 t2 t3)) = [''SHIP-REF-1003'']"
  by (simp add: MOCK_SHIPMENTS_def is_at_risk_def)

text \<open>
  Claim C1. Against the mock directory, \<^verbatim>\<open>find_delayed_shipments\<close> returns the
  serialised list of exactly those fixture entries whose status is \<^verbatim>\<open>AT_RISK\<close>: the
  reference numbers of the returned entries are the keys of the at-risk shipments of the
  fixture, which is the single key \<^verbatim>\<open>SHIP-REF-1003\<close>, every returned entry carries the
  status \<^verbatim>\<open>AT_RISK\<close>, and the state of the process is untouched. This holds whatever the
  three timestamps of the fixture are.
\<close>

theorem find_delayed_shipments_mock_exact:
  "\<exists>delayed.
     delayed_loop [] (MOCK_SHIPMENTS t1 t2 t3) = Inr delayed
     \<and> find_delayed_shipments_mock (MOCK_SHIPMENTS t1 t2 t3) s = (json_dumps (JArray delayed), s)
     \<and> map (entry_field ''reference_no'') delayed =
         map (\<lambda>kv. Some (JString (fst kv))) (filter is_at_risk (MOCK_SHIPMENTS t1 t2 t3))
     \<and> map (entry_field ''reference_no'') delayed = [Some (JString ''SHIP-REF-1003'')]
     \<and> list_all (\<lambda>d. entry_field ''status'' d = Some (JString ''AT_RISK'')) delayed"
proof -
  obtain delayed where loop: "delayed_loop [] (MOCK_SHIPMENTS t1 t2 t3) = Inr delayed"
    and ne: "delayed \<noteq> []"
    using mock_delayed_loop by blast
  have refs: "map (entry_field ''reference_no'') delayed =
         map (\<lambda>kv. Some (JString (fst kv))) (filter is_at_risk (MOCK_SHIPMENTS t1 t2 t3))"
    using delayed_loop_refs [OF loop] by simp
  have "map (\<lambda>kv. Some (JString (fst kv))) (filter is_at_risk (MOCK_SHIPMENTS t1 t2 t3))
          = map (\<lambda>k. Some (JString k)) (map fst (filter is_at_risk (MOCK_SHIPMENTS t1 t2 t3)))"
    by (simp add: comp_def)
  then have one: "map (entry_field ''reference_no'') delayed = [Some (JString ''SHIP-REF-1003'')]"
    using refs mock_at_risk_keys by simp
  have st: "list_all (\<lambda>d. entry_field ''status'' d = Some (JString ''AT_RISK'')) delayed"
    by (rule delayed_loop_all [OF _ loop]) (simp_all add: delayed_entry_fields(2))
  have "find_delayed_shipments_mock (MOCK_SHIPMENTS t1 t2 t3) s = (json_dumps (JArray delayed), s)"
    using loop ne by (simp add: find_delayed_shipments_mock_def find_delayed_shipments_mock_body_def)
  with loop refs one st show ?thesis by (intro exI [where x = delayed] conjI)
qed

section \<open>The mock tools cannot fail\<close>

lemma json_dumps_object_head: "\<exists>rest. json_dumps (JObject d) = CHR ''{'' # rest"
  by (simp add: json_dumps_def)

lemma json_dumps_array_head: "\<exists>rest. json_dumps (JArray xs) = CHR ''['' # rest"
  by (simp add: json_dumps_def)

text \<open>The membership test guards the subscript, for every fixture.\<close>

lemma get_shipment_status_mock_body_total:
  "\<exists>r. get_shipment_status_mock_body M reference_no = Inr r"
proof (cases "reference_no \<in> set (map fst M)")
  case True
  then obtain d where "map_of M reference_no = Some d"
    by (metis map_of_eq_None_iff not_Some_eq set_map)
  with True show ?thesis
    by (simp add: get_shipment_status_mock_body_def dict_getitem_def)
next
  case False
  then show ?thesis by (simp add: get_shipment_status_mock_body_def)
qed

lemma get_shipment_status_mock_body_shape:
  assumes "get_shipment_status_mock_body M reference_no = Inr r"
  shows "(\<exists>rest. r = CHR ''{'' # rest) \<or> r = ''Shipment '' @ reference_no @ '' not found''"
  using assms json_dumps_object_head
  by (auto simp: get_shipment_status_mock_body_def dict_getitem_def
           split: if_splits option.splits)

text \<open>
  Claim C10. In the mock variant, for every string \<open>reference_no\<close> and whatever the three
  timestamps of the fixture are, the bodies of \<^verbatim>\<open>get_shipment_status\<close> and
  \<^verbatim>\<open>find_delayed_shipments\<close> end without an exception, so the handlers are never
  entered: the tools return what the bodies return, leave the state (and with it the log)
  as it was, and the returned strings do not begin with the words of the two error
  messages.
\<close>

theorem mock_tools_never_fail:
  "(\<exists>r. get_shipment_status_mock_body (MOCK_SHIPMENTS t1 t2 t3) reference_no = Inr r
        \<and> get_shipment_status_mock (MOCK_SHIPMENTS t1 t2 t3) s reference_no = (r, s)
        \<and> \<not> prefix ''Error retrieving shipment status'' r)
   \<and> (\<exists>r. find_delayed_shipments_mock_body (MOCK_SHIPMENTS t1 t2 t3) = Inr r
        \<and> find_delayed_shipments_mock (MOCK_SHIPMENTS t1 t2 t3) s = (r, s)
        \<and> \<not> prefix ''Error finding delayed shipments'' r)"
proof (rule conjI)
  obtain r where r: "get_shipment_status_mock_body (MOCK_SHIPMENTS t1 t2 t3) reference_no = Inr r"
    using get_shipment_status_mock_body_total by blast
  have "\<not> prefix ''Error retrieving shipment status'' r"
    using get_shipment_status_mock_body_shape [OF r] by auto
  moreover have "get_shipment_status_mock (MOCK_SHIPMENTS t1 t2 t3) s reference_no = (r, s)"
    using r by (simp add: get_shipment_status_mock_def)
  ultimately show "\<exists>r. get_shipment_status_mock_body (MOCK_SHIPMENTS t1 t2 t3) reference_no = Inr r
        \<and> get_shipment_status_mock (MOCK_SHIPMENTS t1 t2 t3) s reference_no = (r, s)
        \<and> \<not> prefix ''Error retrieving shipment status'' r"
    using r by (intro exI [where x = r] conjI)
next
  obtain delayed where loop: "delayed_loop [] (MOCK_SHIPMENTS t1 t2 t3) = Inr delayed"
    and ne: "delayed \<noteq> []"
    using mock_delayed_loop by blast
  let ?r = "json_dumps (JArray delayed)"
  have body: "find_delayed_shipments_mock_body (MOCK_SHIPMENTS t1 t2 t3) = Inr ?r"
    using loop ne by (simp add: find_delayed_shipments_mock_body_def)
  have "\<not> prefix ''Error finding delayed shipments'' ?r"
    using json_dumps_array_head [of delayed] by auto
  moreover have "find_delayed_shipments_mock (MOCK_SHIPMENTS t1 t2 t3) s = (?r, s)"
    using body by (simp add: find_delayed_shipments_mock_def)
  ultimately show "\<exists>r. find_delayed_shipments_mock_body (MOCK_SHIPMENTS t1 t2 t3) = Inr r
        \<and> find_delayed_shipments_mock (MOCK_SHIPMENTS t1 t2 t3) s = (r, s)
        \<and> \<not> prefix ''Error finding delayed shipments'' r"
    using body by (intro exI [where x = ?r] conjI)
qed

section \<open>State bookkeeping and the two SQL statements\<close>

lemma emit_fields [simp]:
  "db_config_cache (emit ev s) = db_config_cache s"
  "db_credentials (emit ev s) = db_credentials s"
  "db_connection (emit ev s) = db_connection s"
  "openai_model (emit ev s) = openai_model s"
  "agent (emit ev s) = agent s"
  "trace (emit ev s) = trace s @ [ev]"
  "clock (emit ev s) = Suc (clock s)"
  by (simp_all add: emit_def clock_def)

lemma log_error_fields [simp]:
  "db_config_cache (log_error m s) = db_config_cache s"
  "db_credentials (log_error m s) = db_credentials s"
  "db_connection (log_error m s) = db_connection s"
  "openai_model (log_error m s) = openai_model s"
  "agent (log_error m s) = agent s"
  "trace (log_error m s) = trace s @ [LogError m]"
  "clock (log_error m s) = Suc (clock s)"
  by (simp_all add: log_error_def)

lemma eta_precedes_refl: "eta_precedes a a"
  by (simp add: eta_precedes_def split: option.splits)

lemma eta_precedes_total: "eta_precedes a b \<or> eta_precedes b a"
  by (auto simp: eta_precedes_def split: option.splits)

lemma eta_precedes_trans: "eta_precedes a b \<Longrightarrow> eta_precedes b c \<Longrightarrow> eta_precedes a c"
  by (auto simp: eta_precedes_def split: option.splits)

lemma set_insert_by_eta: "set (insert_by_eta r xs) = insert r (set xs)"
  by (induction xs) auto

lemma mset_insert_by_eta: "mset (insert_by_eta r xs) = add_mset r (mset xs)"
  by (induction xs) auto

lemma insert_by_eta_sorted:
  "eta_desc_nulls_last (map r_eta xs) \<Longrightarrow> eta_desc_nulls_last (map r_eta (insert_by_eta r xs))"
proof (induction xs)
  case Nil
  then show ?case by simp
next
  case (Cons x xs)
  show ?case
  proof (cases "eta_precedes (r_eta r) (r_eta x)")
    case True
    have "list_all (eta_precedes (r_eta r)) (map r_eta xs)"
      using Cons.prems True by (auto simp: list_all_iff intro: eta_precedes_trans)
    with True Cons.prems show ?thesis by simp
  next
    case False
    then have xr: "eta_precedes (r_eta x) (r_eta r)" using eta_precedes_total by blast
    have "list_all (eta_precedes (r_eta x)) (map r_eta (insert_by_eta r xs))"
      using Cons.prems xr by (auto simp: list_all_iff set_insert_by_eta)
    moreover have "eta_desc_nulls_last (map r_eta (insert_by_eta r xs))"
      using Cons.IH Cons.prems by simp
    ultimately show ?thesis using False by simp
  qed
qed

lemma order_by_eta_sorted: "eta_desc_nulls_last (map r_eta (order_by_eta_desc_nulls_last rows))"
  unfolding order_by_eta_desc_nulls_last_def
  by (induction rows) (simp_all add: insert_by_eta_sorted)

lemma mset_order_by_eta: "mset (order_by_eta_desc_nulls_last rows) = mset rows"
  unfolding order_by_eta_desc_nulls_last_def
  by (induction rows) (simp_all add: mset_insert_by_eta)

lemma at_risk_rows_sorted: "eta_desc_nulls_last (map r_eta (at_risk_rows db))"
  by (simp add: at_risk_rows_def order_by_eta_sorted)

lemma sql_eq_Some [simp]: "sql_eq a (Some x) \<longleftrightarrow> a = Some x"
  by (auto simp: sql_eq_def split: option.splits)

lemma mset_at_risk_rows:
  "mset (at_risk_rows db) = filter_mset (\<lambda>r. r_eta_status r = Some ''AT_RISK'') (mset (mv_eta_risk db))"
  by (simp add: at_risk_rows_def mset_order_by_eta)

lemma at_risk_query_empty: "at_risk_query db = [] \<longleftrightarrow> at_risk_rows db = []"
  by (simp add: at_risk_query_def)

text \<open>The status statement: every row carries the reference number asked for.\<close>

lemma status_query_first_column:
  "row \<in> set (status_query db reference_no) \<Longrightarrow> \<exists>rest. row = SqlText reference_no # rest"
  by (auto simp: status_query_def status_columns_def sql_text_def)

lemma left_join_locations_nonempty: "left_join_locations locs le \<noteq> []"
  by (simp add: left_join_locations_def Let_def)

lemma set_status_join:
  "(s, le, loc) \<in> set (status_join db) \<longleftrightarrow>
     s \<in> set (shipments db) \<and> le \<in> set (v_shipment_latest_event db)
     \<and> sql_eq (le_shipment_id le) (s_shipment_id s)
     \<and> loc \<in> set (left_join_locations (locations db) le)"
  by (auto simp: status_join_def split: if_splits)

lemma status_query_nonempty:
  "status_query db reference_no \<noteq> [] \<longleftrightarrow> known_reference db reference_no"
proof -
  have "status_query db reference_no \<noteq> [] \<longleftrightarrow>
          (\<exists>j \<in> set (status_join db). s_reference_no (fst j) = Some reference_no)"
    by (auto simp: status_query_def filter_empty_conv)
  also have "\<dots> \<longleftrightarrow> (\<exists>s \<in> set (shipments db). s_reference_no s = Some reference_no \<and>
          (\<exists>le \<in> set (v_shipment_latest_event db). sql_eq (le_shipment_id le) (s_shipment_id s)))"
  proof
    assume "\<exists>j \<in> set (status_join db). s_reference_no (fst j) = Some reference_no"
    then obtain s le loc where "(s, le, loc) \<in> set (status_join db)"
      and "s_reference_no s = Some reference_no" by auto
    then show "\<exists>s \<in> set (shipments db). s_reference_no s = Some reference_no \<and>
          (\<exists>le \<in> set (v_shipment_latest_event db). sql_eq (le_shipment_id le) (s_shipment_id s))"
      by (auto simp: set_status_join)
  next
    assume "\<exists>s \<in> set (shipments db). s_reference_no s = Some reference_no \<and>
          (\<exists>le \<in> set (v_shipment_latest_event db). sql_eq (le_shipment_id le) (s_shipment_id s))"
    then obtain s le where s: "s \<in> set (shipments db)" "s_reference_no s = Some reference_no"
      and le: "le \<in> set (v_shipment_latest_event db)" "sql_eq (le_shipment_id le) (s_shipment_id s)"
      by auto
    obtain loc where "loc \<in> set (left_join_locations (locations db) le)"
      using left_join_locations_nonempty [of "locations db" le]
      by (cases "left_join_locations (locations db) le") auto
    with s le have "(s, le, loc) \<in> set (status_join db)" by (simp add: set_status_join)
    with s(2) show "\<exists>j \<in> set (status_join db). s_reference_no (fst j) = Some reference_no"
      by force
  qed
  finally show ?thesis by (simp add: known_reference_def list_ex_iff)
qed

section \<open>The operations of the persisted directory\<close>

lemma conn_run_ok:
  "run_fault w (clock s) c = None \<Longrightarrow>
     conn_run w s c q = (Inr (eval_query (db_at w (clock s)) q), emit (ConnRun c q) s)"
  by (simp add: conn_run_def Let_def)

lemma conn_run_fault:
  "run_fault w (clock s) c = Some e \<Longrightarrow> conn_run w s c q = (Inl e, emit (ConnRun c q) s)"
  by (simp add: conn_run_def Let_def)

lemma get_db_connection_cached:
  "db_connection s = Some c \<Longrightarrow> get_db_connection w s = (Inr c, s)"
  by (simp add: get_db_connection_def)

lemma get_shipment_status_answer:
  assumes "get_db_connection w s = (Inr c, s1)" and "run_fault w (clock s1) c = None"
  shows "get_shipment_status w s reference_no =
           (case status_query (db_at w (clock s1)) reference_no of
              row # _ \<Rightarrow> json_dumps (row_json w row)
            | [] \<Rightarrow> ''Shipment '' @ reference_no @ '' not found'',
            emit (ConnRun c (StatusQuery reference_no)) s1)"
  using assms
  by (simp add: get_shipment_status_def get_shipment_status_body_def conn_run_ok eval_query_def
           split: list.splits)

lemma get_shipment_status_connection_fault:
  assumes "get_db_connection w s = (Inl e, s1)"
  shows "get_shipment_status w s reference_no =
           (''Error retrieving shipment status: '' @ exn_str e,
            log_error (''Error in get_shipment_status: '' @ exn_type e @ '': '' @ exn_str e) s1)"
  using assms by (simp add: get_shipment_status_def get_shipment_status_body_def)

lemma get_shipment_status_query_fault:
  assumes "get_db_connection w s = (Inr c, s1)" and "run_fault w (clock s1) c = Some e"
  shows "get_shipment_status w s reference_no =
           (''Error retrieving shipment status: '' @ exn_str e,
            log_error (''Error in get_shipment_status: '' @ exn_type e @ '': '' @ exn_str e)
              (emit (ConnRun c (StatusQuery reference_no)) s1))"
  using assms
  by (simp add: get_shipment_status_def get_shipment_status_body_def conn_run_fault)

lemma find_delayed_shipments_answer:
  assumes "get_db_connection w s = (Inr c, s1)" and "run_fault w (clock s1) c = None"
  shows "find_delayed_shipments w s =
           (if at_risk_rows (db_at w (clock s1)) = [] then ''No delayed shipments found''
            else json_dumps (JArray (map (\<lambda>r. row_json w (risk_columns r))
                                       (at_risk_rows (db_at w (clock s1))))),
            emit (ConnRun c AtRiskQuery) s1)"
  using assms
  by (simp add: find_delayed_shipments_def find_delayed_shipments_body_def conn_run_ok
        eval_query_def at_risk_query_def comp_def)

lemma find_delayed_shipments_query_fault:
  assumes "get_db_connection w s = (Inr c, s1)" and "run_fault w (clock s1) c = Some e"
  shows "find_delayed_shipments w s =
           (''Error finding delayed shipments: '' @ exn_str e,
            log_error (''Error in find_delayed_shipments: '' @ exn_type e @ '': '' @ exn_str e)
              (emit (ConnRun c AtRiskQuery) s1))"
  using assms
  by (simp add: find_delayed_shipments_def find_delayed_shipments_body_def conn_run_fault)

lemma all_missing_eta_ordered: "list_all (\<lambda>a. a = None) xs \<Longrightarrow> eta_desc_nulls_last xs"
  by (induction xs) (auto simp: list_all_iff eta_precedes_def)

lemma delayed_loop_no_eta:
  assumes "delayed_loop [] M = Inr delayed"
  shows "eta_desc_nulls_last (map entry_eta delayed)"
proof -
  have "list_all (\<lambda>d. entry_eta d = None) delayed"
    by (rule delayed_loop_all [OF _ assms])
       (simp_all add: entry_eta_def delayed_entry_fields(3))
  then show ?thesis by (intro all_missing_eta_ordered) (simp add: list_all_iff)
qed

text \<open>
  Claim C2. Persisted variant: whenever the connection is obtained and the store runs
  the statement, whatever the contents of the risk view, the rows serialised by
  \<^verbatim>\<open>find_delayed_shipments\<close> are all the rows of the view with status \<^verbatim>\<open>AT_RISK\<close> (as
  a multiset), in descending order of ETA with the rows without ETA last, and when there
  is none the result is the sentence \<^verbatim>\<open>No delayed shipments found\<close>. Mock variant:
  for every fixture on which the loop ends normally the entries have no ETA at all, so
  they are ordered in the same sense, and an empty list gives the same sentence.
\<close>

theorem find_delayed_shipments_ordered:
  "(get_db_connection w s = (Inr c, s1) \<and> run_fault w (clock s1) c = None \<longrightarrow>
      (\<exists>rows.
         mset rows = filter_mset (\<lambda>r. r_eta_status r = Some ''AT_RISK'')
                       (mset (mv_eta_risk (db_at w (clock s1))))
         \<and> eta_desc_nulls_last (map r_eta rows)
         \<and> fst (find_delayed_shipments w s) =
             (if rows = [] then ''No delayed shipments found''
              else json_dumps (JArray (map (\<lambda>r. row_json w (risk_columns r)) rows)))))
   \<and> (delayed_loop [] M = Inr delayed \<longrightarrow>
        eta_desc_nulls_last (map entry_eta delayed)
        \<and> find_delayed_shipments_mock M s' =
            (if delayed = [] then ''No delayed shipments found''
             else json_dumps (JArray delayed), s'))"
proof (intro conjI impI)
  assume a: "get_db_connection w s = (Inr c, s1) \<and> run_fault w (clock s1) c = None"
  let ?rows = "at_risk_rows (db_at w (clock s1))"
  have "fst (find_delayed_shipments w s) =
          (if ?rows = [] then ''No delayed shipments found''
           else json_dumps (JArray (map (\<lambda>r. row_json w (risk_columns r)) ?rows)))"
    using a by (simp add: find_delayed_shipments_answer)
  with mset_at_risk_rows at_risk_rows_sorted
  show "\<exists>rows.
         mset rows = filter_mset (\<lambda>r. r_eta_status r = Some ''AT_RISK'')
                       (mset (mv_eta_risk (db_at w (clock s1))))
         \<and> eta_desc_nulls_last (map r_eta rows)
         \<and> fst (find_delayed_shipments w s) =
             (if rows = [] then ''No delayed shipments found''
              else json_dumps (JArray (map (\<lambda>r. row_json w (risk_columns r)) rows)))"
    by (intro exI [where x = ?rows] conjI)
next
  assume "delayed_loop [] M = Inr delayed"
  then show "eta_desc_nulls_last (map entry_eta delayed)" by (rule delayed_loop_no_eta)
next
  assume "delayed_loop [] M = Inr delayed"
  then show "find_delayed_shipments_mock M s' =
            (if delayed = [] then ''No delayed shipments found''
             else json_dumps (JArray delayed), s')"
    by (simp add: find_delayed_shipments_mock_def find_delayed_shipments_mock_body_def)
qed

text \<open>The at-risk statement on the concrete store: later ETA first, the missing ETA last.\<close>

lemma example_at_risk_order:
  "map r_reference_no (at_risk_rows example_database)
     = [Some ''ACME-REF-1004'', Some ''ACME-REF-1002'', Some ''ACME-REF-1003'']
   \<and> map r_eta (at_risk_rows example_database) = [Some 900, Some 500, None]"
  by (simp add: at_risk_rows_def order_by_eta_desc_nulls_last_def example_database_def
        eta_precedes_def)

lemma example_connection:
  "get_db_connection example_world connected_state = (Inr 7, connected_state)"
  by (simp add: get_db_connection_def connected_state_def)

lemma example_no_fault: "run_fault example_world n c = None"
  by (simp add: example_world_def)

theorem find_delayed_shipments_ordered_witness:
  "(get_db_connection example_world connected_state = (Inr 7, connected_state)
      \<and> run_fault example_world (clock connected_state) 7 = None)
   \<and> delayed_loop [] (MOCK_SHIPMENTS ''a'' ''b'' ''c'') =
       Inr [JObject
         [(''reference_no'', JString ''SHIP-REF-1003''),
          (''status'', JString ''AT_RISK''),
          (''current_location'', JString ''Port of Singapore''),
          (''event'', JString ''DELAYED''),
          (''occurred_at'', JString ''c''),
          (''details'', JString ''Vessel delayed due to weather conditions'')]]
   \<and> (\<exists>rows.
         mset rows = filter_mset (\<lambda>r. r_eta_status r = Some ''AT_RISK'')
                       (mset (mv_eta_risk (db_at example_world (clock connected_state))))
         \<and> eta_desc_nulls_last (map r_eta rows)
         \<and> fst (find_delayed_shipments example_world connected_state) =
             (if rows = [] then ''No delayed shipments found''
              else json_dumps (JArray (map (\<lambda>r. row_json example_world (risk_columns r)) rows))))
   \<and> fst (find_delayed_shipments_mock (MOCK_SHIPMENTS ''a'' ''b'' ''c'') initial_state) =
       json_dumps (JArray [JObject
         [(''reference_no'', JString ''SHIP-REF-1003''),
          (''status'', JString ''AT_RISK''),
          (''current_location'', JString ''Port of Singapore''),
          (''event'', JString ''DELAYED''),
          (''occurred_at'', JString ''c''),
          (''details'', JString ''Vessel delayed due to weather conditions'')]])"
proof -
  let ?e = "JObject
         [(''reference_no'', JString ''SHIP-REF-1003''),
          (''status'', JString ''AT_RISK''),
          (''current_location'', JString ''Port of Singapore''),
          (''event'', JString ''DELAYED''),
          (''occurred_at'', JString ''c''),
          (''details'', JString ''Vessel delayed due to weather conditions'')]"
  have h1: "get_db_connection example_world connected_state = (Inr 7, connected_state)
      \<and> run_fault example_world (clock connected_state) 7 = None"
    by (simp add: example_connection example_no_fault)
  have h2: "delayed_loop [] (MOCK_SHIPMENTS ''a'' ''b'' ''c'') = Inr [?e]"
    by (rule mock_delayed_loop)
  show ?thesis
    using h1 h2
      find_delayed_shipments_ordered [of example_world connected_state 7 connected_state
        "MOCK_SHIPMENTS ''a'' ''b'' ''c''" "[?e]" initial_state]
    by simp
qed

lemma mock_known_reference:
  assumes "reference_no \<in> set (map fst (MOCK_SHIPMENTS t1 t2 t3))"
  shows "\<exists>d. map_of (MOCK_SHIPMENTS t1 t2 t3) reference_no = Some d
            \<and> map_of d ''reference_no'' = Some (JString reference_no)"
  using assms by (auto simp: MOCK_SHIPMENTS_def)

text \<open>
  Claim C3. For a reference number that is a key of the mock fixture,
  \<^verbatim>\<open>get_shipment_status\<close> returns the serialised record stored under that key, whose
  \<^verbatim>\<open>reference_no\<close> field is the key. In the persisted variant, when the connection is
  obtained, the store runs the statement and the reference is known, the result is a
  serialised row of the status statement whose first column, \<^verbatim>\<open>s.reference_no\<close>, is
  the reference asked for.
\<close>

theorem get_shipment_status_known:
  "(reference_no \<in> set (map fst (MOCK_SHIPMENTS t1 t2 t3)) \<longrightarrow>
      (\<exists>d. map_of (MOCK_SHIPMENTS t1 t2 t3) reference_no = Some d
         \<and> get_shipment_status_mock (MOCK_SHIPMENTS t1 t2 t3) s' reference_no
             = (json_dumps (JObject d), s')
         \<and> map_of d ''reference_no'' = Some (JString reference_no)))
   \<and> (get_db_connection w s = (Inr c, s1) \<and> run_fault w (clock s1) c = None
        \<and> known_reference (db_at w (clock s1)) reference_no \<longrightarrow>
      (\<exists>row rest. row \<in> set (status_query (db_at w (clock s1)) reference_no)
         \<and> row = SqlText reference_no # rest
         \<and> fst (get_shipment_status w s reference_no) = json_dumps (row_json w row)))"
proof (intro conjI impI)
  assume k: "reference_no \<in> set (map fst (MOCK_SHIPMENTS t1 t2 t3))"
  then obtain d where d: "map_of (MOCK_SHIPMENTS t1 t2 t3) reference_no = Some d"
    and r: "map_of d ''reference_no'' = Some (JString reference_no)"
    using mock_known_reference by blast
  have "get_shipment_status_mock (MOCK_SHIPMENTS t1 t2 t3) s' reference_no
          = (json_dumps (JObject d), s')"
    using k d
    by (simp add: get_shipment_status_mock_def get_shipment_status_mock_body_def dict_getitem_def)
  with d r show "\<exists>d. map_of (MOCK_SHIPMENTS t1 t2 t3) reference_no = Some d
         \<and> get_shipment_status_mock (MOCK_SHIPMENTS t1 t2 t3) s' reference_no
             = (json_dumps (JObject d), s')
         \<and> map_of d ''reference_no'' = Some (JString reference_no)"
    by (intro exI [where x = d] conjI)
next
  assume a: "get_db_connection w s = (Inr c, s1) \<and> run_fault w (clock s1) c = None
        \<and> known_reference (db_at w (clock s1)) reference_no"
  let ?q = "status_query (db_at w (clock s1)) reference_no"
  from a have "?q \<noteq> []" by (simp add: status_query_nonempty)
  then obtain row more where q: "?q = row # more" by (cases ?q) auto
  then have "row \<in> set ?q" by simp
  then obtain rest where rest: "row = SqlText reference_no # rest"
    using status_query_first_column by blast
  have "fst (get_shipment_status w s reference_no) = json_dumps (row_json w row)"
    using a q by (simp add: get_shipment_status_answer)
  with \<open>row \<in> set ?q\<close> rest
  show "\<exists>row rest. row \<in> set ?q \<and> row = SqlText reference_no # rest
         \<and> fst (get_shipment_status w s reference_no) = json_dumps (row_json w row)"
    by blast
qed

lemma example_known: "known_reference example_database ''ACME-REF-1001''"
  by (simp add: known_reference_def example_database_def sql_eq_def)

lemma example_unknown: "\<not> known_reference example_database ''ACME-REF-9999''"
  by (simp add: known_reference_def example_database_def sql_eq_def)

lemma example_db_at: "db_at example_world n = example_database"
  by (simp add: example_world_def)

theorem get_shipment_status_known_witness:
  "''SHIP-REF-1003'' \<in> set (map fst (MOCK_SHIPMENTS ''a'' ''b'' ''c''))
   \<and> (get_db_connection example_world connected_state = (Inr 7, connected_state)
        \<and> run_fault example_world (clock connected_state) 7 = None
        \<and> known_reference (db_at example_world (clock connected_state)) ''ACME-REF-1001'')
   \<and> (\<exists>d. map_of (MOCK_SHIPMENTS ''a'' ''b'' ''c'') ''SHIP-REF-1003'' = Some d
         \<and> get_shipment_status_mock (MOCK_SHIPMENTS ''a'' ''b'' ''c'') initial_state ''SHIP-REF-1003''
             = (json_dumps (JObject d), initial_state)
         \<and> map_of d ''reference_no'' = Some (JString ''SHIP-REF-1003''))
   \<and> (\<exists>row rest. row \<in> set (status_query (db_at example_world (clock connected_state)) ''ACME-REF-1001'')
         \<and> row = SqlText ''ACME-REF-1001'' # rest
         \<and> fst (get_shipment_status example_world connected_state ''ACME-REF-1001'')
             = json_dumps (row_json example_world row))"
proof -
  have h1: "''SHIP-REF-1003'' \<in> set (map fst (MOCK_SHIPMENTS ''a'' ''b'' ''c''))"
    by (simp add: MOCK_SHIPMENTS_def)
  have h2: "get_db_connection example_world connected_state = (Inr 7, connected_state)
        \<and> run_fault example_world (clock connected_state) 7 = None
        \<and> known_reference (db_at example_world (clock connected_state)) ''ACME-REF-1001''"
    by (simp add: example_connection example_no_fault example_known example_db_at)
  show ?thesis
    using h1 h2
      get_shipment_status_known [of "''SHIP-REF-1003''" "''a''" "''b''" "''c''" initial_state
        example_world connected_state 7 connected_state]
      get_shipment_status_known [of "''ACME-REF-1001''" "''a''" "''b''" "''c''" initial_state
        example_world connected_state 7 connected_state]
    by blast
qed

text \<open>
  Claim C4. For a reference number that is not a key of the mock directory (whatever the
  fixture), and for a reference number unknown to the persisted directory when the
  connection is obtained and the store runs the statement, \<^verbatim>\<open>get_shipment_status\<close>
  returns the sentence \<^verbatim>\<open>Shipment <reference> not found\<close>. The operation returns a
  string and a state in every case: its type has no exception.
\<close>

theorem get_shipment_status_unknown:
  "(reference_no \<notin> set (map fst M) \<longrightarrow>
      get_shipment_status_mock M s' reference_no
        = (''Shipment '' @ reference_no @ '' not found'', s'))
   \<and> (get_db_connection w s = (Inr c, s1) \<and> run_fault w (clock s1) c = None
        \<and> \<not> known_reference (db_at w (clock s1)) reference_no \<longrightarrow>
      get_shipment_status w s reference_no
        = (''Shipment '' @ reference_no @ '' not found'',
           emit (ConnRun c (StatusQuery reference_no)) s1))"
proof (intro conjI impI)
  assume "reference_no \<notin> set (map fst M)"
  then show "get_shipment_status_mock M s' reference_no
        = (''Shipment '' @ reference_no @ '' not found'', s')"
    by (simp add: get_shipment_status_mock_def get_shipment_status_mock_body_def)
next
  assume a: "get_db_connection w s = (Inr c, s1) \<and> run_fault w (clock s1) c = None
        \<and> \<not> known_reference (db_at w (clock s1)) reference_no"
  then have "status_query (db_at w (clock s1)) reference_no = []"
    using status_query_nonempty by blast
  with a show "get_shipment_status w s reference_no
        = (''Shipment '' @ reference_no @ '' not found'',
           emit (ConnRun c (StatusQuery reference_no)) s1)"
    by (simp add: get_shipment_status_answer)
qed

theorem get_shipment_status_unknown_witness:
  "''ACME-REF-9999'' \<notin> set (map fst (MOCK_SHIPMENTS ''a'' ''b'' ''c''))
   \<and> (get_db_connection example_world connected_state = (Inr 7, connected_state)
        \<and> run_fault example_world (clock connected_state) 7 = None
        \<and> \<not> known_reference (db_at example_world (clock connected_state)) ''ACME-REF-9999'')
   \<and> get_shipment_status_mock (MOCK_SHIPMENTS ''a'' ''b'' ''c'') initial_state ''ACME-REF-9999''
        = (''Shipment ACME-REF-9999 not found'', initial_state)
   \<and> get_shipment_status example_world connected_state ''ACME-REF-9999''
        = (''Shipment ACME-REF-9999 not found'',
           emit (ConnRun 7 (StatusQuery ''ACME-REF-9999'')) connected_state)"
proof -
  have h1: "''ACME-REF-9999'' \<notin> set (map fst (MOCK_SHIPMENTS ''a'' ''b'' ''c''))"
    by (simp add: MOCK_SHIPMENTS_def)
  have h2: "get_db_connection example_world connected_state = (Inr 7, connected_state)
        \<and> run_fault example_world (clock connected_state) 7 = None
        \<and> \<not> known_reference (db_at example_world (clock connected_state)) ''ACME-REF-9999''"
    by (simp add: example_connection example_no_fault example_unknown example_db_at)
  show ?thesis
    using h1 h2
      get_shipment_status_unknown [of "''ACME-REF-9999''" "MOCK_SHIPMENTS ''a'' ''b'' ''c''"
        initial_state example_world connected_state 7 connected_state]
    by simp
qed

lemma error_words_status:
  "sublist ''Error retrieving shipment status'' (''Error retrieving shipment status: '' @ m)"
  by (rule prefix_imp_sublist) simp

text \<open>The body fails exactly when the connection cannot be had or the statement fails.\<close>

lemma get_shipment_status_body_fault_iff:
  "get_shipment_status_body w s reference_no = (Inl e, s1) \<longleftrightarrow>
     get_db_connection w s = (Inl e, s1)
     \<or> (\<exists>c s0. get_db_connection w s = (Inr c, s0) \<and> run_fault w (clock s0) c = Some e
               \<and> s1 = emit (ConnRun c (StatusQuery reference_no)) s0)"
  by (auto simp: get_shipment_status_body_def conn_run_def Let_def
           split: prod.splits sum.splits option.splits list.splits)

text \<open>
  Claim C5. In the persisted variant, a fault while the connection is obtained (reading
  the parameters or the secret, connecting) or while the statement runs is caught by
  \<^verbatim>\<open>get_shipment_status\<close>: it returns the words \<^verbatim>\<open>Error retrieving shipment status\<close>
  followed by the message of the fault, and hands one more line to the logger. By
  \<open>get_shipment_status_body_fault_iff\<close> these are all the faults of the body.
\<close>

theorem get_shipment_status_store_fault:
  "get_db_connection w s = (Inl e, s1)
   \<or> (\<exists>c s0. get_db_connection w s = (Inr c, s0) \<and> run_fault w (clock s0) c = Some e
             \<and> s1 = emit (ConnRun c (StatusQuery reference_no)) s0)
   \<longrightarrow> get_shipment_status w s reference_no
         = (''Error retrieving shipment status: '' @ exn_str e,
            log_error (''Error in get_shipment_status: '' @ exn_type e @ '': '' @ exn_str e) s1)
       \<and> sublist ''Error retrieving shipment status'' (fst (get_shipment_status w s reference_no))"
proof (intro impI)
  assume "get_db_connection w s = (Inl e, s1)
   \<or> (\<exists>c s0. get_db_connection w s = (Inr c, s0) \<and> run_fault w (clock s0) c = Some e
             \<and> s1 = emit (ConnRun c (StatusQuery reference_no)) s0)"
  then have r: "get_shipment_status w s reference_no
         = (''Error retrieving shipment status: '' @ exn_str e,
            log_error (''Error in get_shipment_status: '' @ exn_type e @ '': '' @ exn_str e) s1)"
  proof (elim disjE exE conjE)
    assume "get_db_connection w s = (Inl e, s1)"
    then show ?thesis by (rule get_shipment_status_connection_fault)
  next
    fix c s0
    assume c: "get_db_connection w s = (Inr c, s0)" and f: "run_fault w (clock s0) c = Some e"
      and s1: "s1 = emit (ConnRun c (StatusQuery reference_no)) s0"
    show ?thesis unfolding s1 using c f by (rule get_shipment_status_query_fault)
  qed
  have "sublist ''Error retrieving shipment status''
          (''Error retrieving shipment status: '' @ exn_str e)"
    by (rule error_words_status)
  then have "sublist ''Error retrieving shipment status''
          (fst (get_shipment_status w s reference_no))"
    unfolding r fst_conv .
  with r show "get_shipment_status w s reference_no
         = (''Error retrieving shipment status: '' @ exn_str e,
            log_error (''Error in get_shipment_status: '' @ exn_type e @ '': '' @ exn_str e) s1)
       \<and> sublist ''Error retrieving shipment status'' (fst (get_shipment_status w s reference_no))"
    by (rule conjI)
qed

lemma broken_store_connection:
  "get_db_connection broken_store_world connected_state = (Inr 7, connected_state)"
  by (simp add: get_db_connection_def connected_state_def)

lemma broken_store_fault: "run_fault broken_store_world n c = Some network_error"
  by (simp add: broken_store_world_def)


theorem get_shipment_status_store_fault_witness:
  "(\<exists>c s0. get_db_connection broken_store_world connected_state = (Inr c, s0)
       \<and> run_fault broken_store_world (clock s0) c = Some network_error
       \<and> emit (ConnRun 7 (StatusQuery ''ACME-REF-1001'')) connected_state
           = emit (ConnRun c (StatusQuery ''ACME-REF-1001'')) s0)
   \<and> get_shipment_status broken_store_world connected_state ''ACME-REF-1001''
       = (''Error retrieving shipment status: network error'',
          log_error ''Error in get_shipment_status: InterfaceError: network error''
            (emit (ConnRun 7 (StatusQuery ''ACME-REF-1001'')) connected_state))
   \<and> sublist ''Error retrieving shipment status''
        (fst (get_shipment_status broken_store_world connected_state ''ACME-REF-1001''))"
proof -
  have h: "\<exists>c s0. get_db_connection broken_store_world connected_state = (Inr c, s0)
       \<and> run_fault broken_store_world (clock s0) c = Some network_error
       \<and> emit (ConnRun 7 (StatusQuery ''ACME-REF-1001'')) connected_state
           = emit (ConnRun c (StatusQuery ''ACME-REF-1001'')) s0"
    by (simp add: broken_store_connection broken_store_fault)
  have d: "get_db_connection broken_store_world connected_state
                = (Inl network_error, emit (ConnRun 7 (StatusQuery ''ACME-REF-1001'')) connected_state)
     \<or> (\<exists>c s0. get_db_connection broken_store_world connected_state = (Inr c, s0)
       \<and> run_fault broken_store_world (clock s0) c = Some network_error
       \<and> emit (ConnRun 7 (StatusQuery ''ACME-REF-1001'')) connected_state
           = emit (ConnRun c (StatusQuery ''ACME-REF-1001'')) s0)"
    using h by (rule disjI2)
  note r = get_shipment_status_store_fault [THEN mp, OF d]
  have e: "exn_str network_error = ''network error''" "exn_type network_error = ''InterfaceError''"
    by (simp_all add: network_error_def)
  show ?thesis using h r unfolding e by simp
qed

section \<open>The cached connection\<close>

lemma log_info_fields [simp]:
  "db_connection (log_info m s) = db_connection s"
  "trace (log_info m s) = trace s @ [LogInfo m]"
  by (simp_all add: log_info_def)

lemma get_shipment_status_keeps_connection:
  "db_connection s = Some h \<Longrightarrow> db_connection (snd (get_shipment_status w s r)) = Some h"
  by (simp add: get_shipment_status_def get_shipment_status_body_def get_db_connection_cached
        conn_run_def Let_def split: option.splits list.splits)

lemma find_delayed_shipments_keeps_connection:
  "db_connection s = Some h \<Longrightarrow> db_connection (snd (find_delayed_shipments w s)) = Some h"
  by (simp add: find_delayed_shipments_def find_delayed_shipments_body_def get_db_connection_cached
        conn_run_def Let_def split: option.splits)

lemma mock_tools_keep_connection:
  "db_connection (snd (get_shipment_status_mock M s r)) = db_connection s"
  "db_connection (snd (find_delayed_shipments_mock M s)) = db_connection s"
  by (simp_all add: get_shipment_status_mock_def find_delayed_shipments_mock_def split: sum.splits)

lemma tools_keep_connection:
  assumes "db_connection s = Some h"
  shows "db_connection (snd (tool_get_shipment_status v w s r)) = Some h"
    and "db_connection (snd (tool_find_delayed_shipments v w s)) = Some h"
  using assms
  by (simp_all add: tool_get_shipment_status_def tool_find_delayed_shipments_def
        mock_tools_keep_connection get_shipment_status_keeps_connection
        find_delayed_shipments_keeps_connection split: variant.splits)

lemma run_engine_keeps_connection:
  "db_connection s = Some h \<Longrightarrow> db_connection (snd (run_engine v w g s)) = Some h"
proof (induction g arbitrary: s)
  case (Finish r)
  then show ?case by simp
next
  case (CallStatus reference_no k)
  obtain out s1 where t: "tool_get_shipment_status v w s reference_no = (out, s1)"
    by (cases "tool_get_shipment_status v w s reference_no")
  then have "db_connection s1 = Some h"
    using tools_keep_connection(1) [OF CallStatus.prems, of v w reference_no] by simp
  then have "db_connection (snd (run_engine v w (k out) s1)) = Some h"
    by (rule CallStatus.IH [OF rangeI])
  with t show ?case by simp
next
  case (CallDelayed k)
  obtain out s1 where t: "tool_find_delayed_shipments v w s = (out, s1)"
    by (cases "tool_find_delayed_shipments v w s")
  then have "db_connection s1 = Some h"
    using tools_keep_connection(2) [OF CallDelayed.prems, of v w] by simp
  then have "db_connection (snd (run_engine v w (k out) s1)) = Some h"
    by (rule CallDelayed.IH [OF rangeI])
  with t show ?case by simp
qed

lemma get_openai_model_keeps_connection:
  "db_connection (snd (get_openai_model v w s)) = db_connection s"
  by (simp add: get_openai_model_def get_openai_model_failed_def Let_def
        split: option.splits sum.splits)

lemma initialize_agent_keeps_connection:
  "db_connection (snd (initialize_agent v w s)) = db_connection s"
proof (cases "get_openai_model v w s")
  case (Pair r s1)
  with get_openai_model_keeps_connection [of v w s] have "db_connection s1 = db_connection s"
    by simp
  with Pair show ?thesis
    by (simp add: initialize_agent_def Let_def split: option.splits sum.splits)
qed

lemma logistics_query_body_keeps_connection:
  assumes "db_connection s = Some h"
  shows "db_connection (snd (logistics_query_body v w s q)) = Some h"
proof (cases "initialize_agent v w s")
  case (Pair r s1)
  with initialize_agent_keeps_connection [of v w s] assms have c1: "db_connection s1 = Some h"
    by simp
  show ?thesis
  proof (cases r)
    case (Inl e)
    with Pair c1 show ?thesis by (simp add: logistics_query_body_def)
  next
    case (Inr a)
    let ?s1 = "emit (AgentCall a q) s1"
    obtain r2 s2 where e: "run_engine v w (agent_engine w (clock s1) a q) ?s1 = (r2, s2)"
      by (cases "run_engine v w (agent_engine w (clock s1) a q) ?s1")
    have "db_connection ?s1 = Some h" using c1 by simp
    from run_engine_keeps_connection [OF this, of v w "agent_engine w (clock s1) a q"] e
    have "db_connection s2 = Some h" by simp
    with Pair Inr e show ?thesis
      by (simp add: logistics_query_body_def split: sum.splits)
  qed
qed

lemma logistics_query_keeps_connection:
  assumes "db_connection s = Some h"
  shows "db_connection (snd (logistics_query v w s payload)) = Some h"
proof (cases "py_get payload ''query'' JNull")
  case (Inl e)
  with assms show ?thesis by (simp add: logistics_query_def)
next
  case (Inr q)
  obtain r s1 where b: "logistics_query_body v w s q = (r, s1)"
    by (cases "logistics_query_body v w s q")
  with logistics_query_body_keeps_connection [OF assms, of v w q]
  have "db_connection s1 = Some h" by simp
  with Inr b assms show ?thesis
    by (simp add: logistics_query_def query_failed_def split: sum.splits)
qed

text \<open>
  Claim C9. In the persisted variant, when the connection \<open>h\<close> is cached and the statement
  run on it raises a fault, both tools return their error string and leave \<open>h\<close> in the
  cache: in the state they return, \<^verbatim>\<open>get_db_connection\<close> hands out \<open>h\<close> again without
  touching the state, whatever the world answers, and the handle is still cached after
  any later request to the entrypoint.
\<close>

theorem cached_connection_survives_fault:
  "db_connection s = Some h \<and> run_fault w (clock s) h = Some e \<longrightarrow>
     (\<exists>s1. get_shipment_status w s reference_no
              = (''Error retrieving shipment status: '' @ exn_str e, s1)
          \<and> db_connection s1 = Some h
          \<and> (\<forall>w'. get_db_connection w' s1 = (Inr h, s1))
          \<and> (\<forall>v w' payload. db_connection (snd (logistics_query v w' s1 payload)) = Some h))
     \<and> (\<exists>s2. find_delayed_shipments w s
              = (''Error finding delayed shipments: '' @ exn_str e, s2)
          \<and> db_connection s2 = Some h
          \<and> (\<forall>w'. get_db_connection w' s2 = (Inr h, s2))
          \<and> (\<forall>v w' payload. db_connection (snd (logistics_query v w' s2 payload)) = Some h))"
proof (intro impI conjI)
  assume a: "db_connection s = Some h \<and> run_fault w (clock s) h = Some e"
  then have c: "get_db_connection w s = (Inr h, s)" by (simp add: get_db_connection_cached)
  let ?s1 = "log_error (''Error in get_shipment_status: '' @ exn_type e @ '': '' @ exn_str e)
               (emit (ConnRun h (StatusQuery reference_no)) s)"
  have r: "get_shipment_status w s reference_no
             = (''Error retrieving shipment status: '' @ exn_str e, ?s1)"
    using c a by (simp add: get_shipment_status_query_fault)
  have k: "db_connection ?s1 = Some h" using a by simp
  show "\<exists>s1. get_shipment_status w s reference_no
              = (''Error retrieving shipment status: '' @ exn_str e, s1)
          \<and> db_connection s1 = Some h
          \<and> (\<forall>w'. get_db_connection w' s1 = (Inr h, s1))
          \<and> (\<forall>v w' payload. db_connection (snd (logistics_query v w' s1 payload)) = Some h)"
    using r k get_db_connection_cached [OF k] logistics_query_keeps_connection [OF k]
    by (intro exI [where x = ?s1] conjI allI)
next
  assume a: "db_connection s = Some h \<and> run_fault w (clock s) h = Some e"
  then have c: "get_db_connection w s = (Inr h, s)" by (simp add: get_db_connection_cached)
  let ?s2 = "log_error (''Error in find_delayed_shipments: '' @ exn_type e @ '': '' @ exn_str e)
               (emit (ConnRun h AtRiskQuery) s)"
  have r: "find_delayed_shipments w s
             = (''Error finding delayed shipments: '' @ exn_str e, ?s2)"
    using c a by (simp add: find_delayed_shipments_query_fault)
  have k: "db_connection ?s2 = Some h" using a by simp
  show "\<exists>s2. find_delayed_shipments w s
              = (''Error finding delayed shipments: '' @ exn_str e, s2)
          \<and> db_connection s2 = Some h
          \<and> (\<forall>w'. get_db_connection w' s2 = (Inr h, s2))
          \<and> (\<forall>v w' payload. db_connection (snd (logistics_query v w' s2 payload)) = Some h)"
    using r k get_db_connection_cached [OF k] logistics_query_keeps_connection [OF k]
    by (intro exI [where x = ?s2] conjI allI)
qed

theorem cached_connection_survives_fault_witness:
  "(db_connection connected_state = Some 7
      \<and> run_fault broken_store_world (clock connected_state) 7 = Some network_error)
   \<and> (\<exists>s1. get_shipment_status broken_store_world connected_state ''ACME-REF-1001''
              = (''Error retrieving shipment status: '' @ exn_str network_error, s1)
          \<and> db_connection s1 = Some 7
          \<and> (\<forall>w'. get_db_connection w' s1 = (Inr 7, s1))
          \<and> (\<forall>v w' payload. db_connection (snd (logistics_query v w' s1 payload)) = Some 7))
   \<and> (\<exists>s2. find_delayed_shipments broken_store_world connected_state
              = (''Error finding delayed shipments: '' @ exn_str network_error, s2)
          \<and> db_connection s2 = Some 7
          \<and> (\<forall>w'. get_db_connection w' s2 = (Inr 7, s2))
          \<and> (\<forall>v w' payload. db_connection (snd (logistics_query v w' s2 payload)) = Some 7))"
proof -
  have h: "db_connection connected_state = Some 7
      \<and> run_fault broken_store_world (clock connected_state) 7 = Some network_error"
    by (simp add: connected_state_def broken_store_fault)
  note r = cached_connection_survives_fault [THEN mp, OF h, of "''ACME-REF-1001''"]
  from h r show ?thesis by (rule conjI)
qed

section \<open>The entrypoint\<close>

text \<open>
  Claim C8. In both variants, a request whose \<^verbatim>\<open>query\<close> is missing, \<^verbatim>\<open>None\<close> or the
  empty string is answered with the usage hint, and the state returned is the state
  given: no global is set and the trace has no new event, so neither the secret store,
  the model, the agent nor a tool was called and nothing was logged.
\<close>

theorem logistics_query_usage_hint:
  "map_of d ''query'' = None \<or> map_of d ''query'' = Some JNull
     \<or> map_of d ''query'' = Some (JString '''')
   \<longrightarrow> logistics_query v w s (JObject d) = (Inr usage_hint, s)"
  by (auto simp: logistics_query_def py_get_def truthy_def)

theorem logistics_query_usage_hint_witness:
  "logistics_query DatabaseTools example_world initial_state (JObject []) = (Inr usage_hint, initial_state)
   \<and> logistics_query DatabaseTools example_world initial_state (JObject [(''query'', JNull)])
       = (Inr usage_hint, initial_state)
   \<and> logistics_query (MockTools (MOCK_SHIPMENTS ''a'' ''b'' ''c'')) example_world initial_state
        (JObject [(''query'', JString '''')]) = (Inr usage_hint, initial_state)"
proof -
  have h1: "map_of ([] :: (string \<times> json) list) ''query'' = None \<or> map_of ([] :: (string \<times> json) list) ''query'' = Some JNull
     \<or> map_of ([] :: (string \<times> json) list) ''query'' = Some (JString '''')" by simp
  have h2: "map_of [(''query'', JNull)] ''query'' = None \<or> map_of [(''query'', JNull)] ''query'' = Some JNull
     \<or> map_of [(''query'', JNull)] ''query'' = Some (JString '''')" by simp
  have h3: "map_of [(''query'', JString '''')] ''query'' = None
     \<or> map_of [(''query'', JString '''')] ''query'' = Some JNull
     \<or> map_of [(''query'', JString '''')] ''query'' = Some (JString '''')" by simp
  show ?thesis
    using logistics_query_usage_hint [THEN mp, OF h1]
      logistics_query_usage_hint [THEN mp, OF h2]
      logistics_query_usage_hint [THEN mp, OF h3]
    by (intro conjI)
qed

text \<open>
  Claim C6 as stated fails for a payload that is not a mapping: \<^verbatim>\<open>payload.get\<close> is
  evaluated before the \<^verbatim>\<open>try\<close>, so for the JSON array \<^verbatim>\<open>[]\<close> the
  \<^verbatim>\<open>AttributeError\<close> leaves \<^verbatim>\<open>logistics_query\<close>.
\<close>

theorem logistics_query_non_mapping_counterexample:
  "logistics_query DatabaseTools example_world initial_state (JArray [])
     = (Inl (Exn ''AttributeError''
               (py_repr ''list'' @ '' object has no attribute '' @ py_repr ''get'')),
        initial_state)
   \<and> \<not> (\<forall>v w s payload. \<exists>t s1. logistics_query v w s payload = (Inr t, s1))"
proof -
  have e: "logistics_query DatabaseTools example_world initial_state (JArray [])
     = (Inl (Exn ''AttributeError''
               (py_repr ''list'' @ '' object has no attribute '' @ py_repr ''get'')),
        initial_state)"
    by (simp add: logistics_query_def py_get_def py_type_name_def)
  have "\<not> (\<exists>t s1. logistics_query DatabaseTools example_world initial_state (JArray []) = (Inr t, s1))"
    unfolding e by simp
  then have "\<not> (\<forall>v w s payload. \<exists>t s1. logistics_query v w s payload = (Inr t, s1))"
    by blast
  with e show ?thesis by (rule conjI)
qed

text \<open>
  Claim C6, amended. For every payload that is a mapping, in both variants and whatever
  the world answers, \<^verbatim>\<open>logistics_query\<close> returns a string; when a statement inside the
  \<^verbatim>\<open>try\<close> (initialising the agent, running it, reading the text of its answer) raises
  a fault, the string is \<^verbatim>\<open>Query failed: \<close> followed by the message of the fault, and
  one line is handed to the logger.
\<close>

theorem logistics_query_returns_string:
  "(\<exists>t s1. logistics_query v w s (JObject d) = (Inr t, s1))
   \<and> (map_of d ''query'' = Some q \<and> truthy q \<and> logistics_query_body v w s q = (Inl e, s2) \<longrightarrow>
        logistics_query v w s (JObject d)
          = (Inr (''Query failed: '' @ exn_str e),
             log_error (''Query failed: '' @ exn_type e @ '': '' @ exn_str e) s2))"
proof (intro conjI impI)
  obtain uq where uq: "py_get (JObject d) ''query'' JNull = Inr uq"
    by (cases "map_of d ''query''") (simp_all add: py_get_def)
  obtain r s1 where b: "logistics_query_body v w s uq = (r, s1)"
    by (cases "logistics_query_body v w s uq")
  show "\<exists>t s1. logistics_query v w s (JObject d) = (Inr t, s1)"
    using uq b by (cases r) (simp_all add: logistics_query_def query_failed_def)
next
  assume "map_of d ''query'' = Some q \<and> truthy q \<and> logistics_query_body v w s q = (Inl e, s2)"
  then show "logistics_query v w s (JObject d)
          = (Inr (''Query failed: '' @ exn_str e),
             log_error (''Query failed: '' @ exn_type e @ '': '' @ exn_str e) s2)"
    by (simp add: logistics_query_def py_get_def query_failed_def)
qed

lemma secret_outage_body:
  "logistics_query_body DatabaseTools secret_outage_world initial_state (JString ''hi'')
     = (Inl network_error,
        log_error ''Failed to initialize OpenAI model: network error''
          (emit (GetSecretValue ''openai-api-key'') initial_state))"
  by (simp add: logistics_query_body_def initialize_agent_def get_openai_model_def
        get_openai_model_failed_def secret_outage_world_def example_world_def initial_state_def
        OPENAI_SECRET_NAME_def network_error_def Let_def log_error_def emit_def)

theorem logistics_query_returns_string_witness:
  "(map_of [(''query'', JString ''hi'')] ''query'' = Some (JString ''hi'') \<and> truthy (JString ''hi'')
      \<and> logistics_query_body DatabaseTools secret_outage_world initial_state (JString ''hi'')
          = (Inl network_error,
             log_error ''Failed to initialize OpenAI model: network error''
               (emit (GetSecretValue ''openai-api-key'') initial_state)))
   \<and> (\<exists>t s1. logistics_query DatabaseTools secret_outage_world initial_state
                 (JObject [(''query'', JString ''hi'')]) = (Inr t, s1))
   \<and> logistics_query DatabaseTools secret_outage_world initial_state
         (JObject [(''query'', JString ''hi'')])
       = (Inr (''Query failed: '' @ exn_str network_error),
          log_error (''Query failed: '' @ exn_type network_error @ '': '' @ exn_str network_error)
            (log_error ''Failed to initialize OpenAI model: network error''
               (emit (GetSecretValue ''openai-api-key'') initial_state)))"
proof -
  have h: "map_of [(''query'', JString ''hi'')] ''query'' = Some (JString ''hi'') \<and> truthy (JString ''hi'')
      \<and> logistics_query_body DatabaseTools secret_outage_world initial_state (JString ''hi'')
          = (Inl network_error,
             log_error ''Failed to initialize OpenAI model: network error''
               (emit (GetSecretValue ''openai-api-key'') initial_state))"
    by (simp add: truthy_def secret_outage_body)
  note t = logistics_query_returns_string [of DatabaseTools secret_outage_world initial_state
      "[(''query'', JString ''hi'')]" "JString ''hi''" network_error
      "log_error ''Failed to initialize OpenAI model: network error''
               (emit (GetSecretValue ''openai-api-key'') initial_state)"]
  from t have t1: "\<exists>t s1. logistics_query DatabaseTools secret_outage_world initial_state
                 (JObject [(''query'', JString ''hi'')]) = (Inr t, s1)" by (rule conjunct1)
  from t have t2: "logistics_query DatabaseTools secret_outage_world initial_state
         (JObject [(''query'', JString ''hi'')])
       = (Inr (''Query failed: '' @ exn_str network_error),
          log_error (''Query failed: '' @ exn_type network_error @ '': '' @ exn_str network_error)
            (log_error ''Failed to initialize OpenAI model: network error''
               (emit (GetSecretValue ''openai-api-key'') initial_state)))"
    using h by (rule conjunct2 [THEN mp])
  show ?thesis by (rule conjI [OF h conjI [OF t1 t2]])
qed

section \<open>Loading the configuration\<close>

text \<open>
  A fault of the parameter store leaves the cache empty, so the next call reads again. A
  fault of the secret store does not: \<^verbatim>\<open>_db_config\<close> is already assigned.
\<close>

lemma load_db_config_cached:
  "db_config_cache s = Some cfg \<Longrightarrow> load_db_config w s = (Inr (cfg, db_credentials s), s)"
  by (simp add: load_db_config_def)

lemma load_db_config_parameter_fault:
  assumes "db_config_cache s = None"
    and "ssm_get_parameters w (clock s) db_parameter_names = Inl e"
  shows "\<exists>s1. load_db_config w s = (Inl e, s1) \<and> db_config_cache s1 = None
           \<and> db_credentials s1 = db_credentials s"
  using assms by (simp add: load_db_config_def load_db_config_failed_def Let_def)

lemma load_db_config_secret_fault:
  assumes "db_config_cache s = None"
    and "ssm_get_parameters w (clock s) db_parameter_names = Inr ps"
    and "build_db_config ps = Inr cfg"
    and "get_secret_json w (Suc (clock s)) (secret_arn cfg) = Inl e"
  shows "\<exists>s1. load_db_config w s = (Inl e, s1) \<and> db_config_cache s1 = Some cfg
           \<and> db_credentials s1 = db_credentials s"
  using assms
  by (simp add: load_db_config_def load_db_config_failed_def Let_def clock_def emit_def)

text \<open>
  Claim C7 fails on the code. Starting from the initial state with the secret store down,
  \<^verbatim>\<open>_load_db_config\<close> raises but leaves \<^verbatim>\<open>_db_config\<close> set and \<^verbatim>\<open>_db_credentials\<close>
  \<^verbatim>\<open>None\<close>. The next call, in a world where every service answers, returns that pair
  from the cache without reading anything, and \<^verbatim>\<open>get_db_connection\<close> fails on
  \<^verbatim>\<open>credentials['username']\<close> with a \<^verbatim>\<open>TypeError\<close>, which the tool reports.
\<close>

theorem load_db_config_keeps_partial_load:
  "\<exists>s1 cfg.
     load_db_config secret_outage_world initial_state = (Inl network_error, s1)
     \<and> db_config_cache s1 = Some cfg
     \<and> db_credentials s1 = JNull
     \<and> load_db_config example_world s1 = (Inr (cfg, JNull), s1)
     \<and> fst (get_db_connection example_world s1)
         = Inl (Exn ''TypeError'' (py_repr ''NoneType'' @ '' object is not subscriptable''))
     \<and> fst (get_shipment_status example_world s1 ''ACME-REF-1001'')
         = ''Error retrieving shipment status: ''
             @ py_repr ''NoneType'' @ '' object is not subscriptable''"
proof -
  let ?cfg = "\<lparr>endpoint = ''db.internal'', database = ''logistics'',
                secret_arn = ''arn:db-secret''\<rparr>"
  have b: "build_db_config
             [(''/agentcore/rds/endpoint'', ''db.internal''),
              (''/agentcore/rds/database'', ''logistics''),
              (''/agentcore/rds/secret-arn'', ''arn:db-secret'')] = Inr ?cfg"
    by (simp add: build_db_config_def dict_getitem_def)
  obtain s1 where l: "load_db_config secret_outage_world initial_state = (Inl network_error, s1)"
    and c: "db_config_cache s1 = Some ?cfg" and d: "db_credentials s1 = db_credentials initial_state"
    using load_db_config_secret_fault [of initial_state secret_outage_world _ ?cfg network_error, OF _ _ b]
    by (auto simp: initial_state_def secret_outage_world_def example_world_def)
  have d': "db_credentials s1 = JNull" using d by (simp add: initial_state_def)
  have n: "db_connection s1 = None"
    using l by (auto simp: load_db_config_def load_db_config_failed_def Let_def initial_state_def
         secret_outage_world_def example_world_def b split: sum.splits)
  have l2: "load_db_config example_world s1 = (Inr (?cfg, JNull), s1)"
    using load_db_config_cached [OF c] d' by simp
  have g: "get_db_connection example_world s1
             = db_connection_failed
                 (Exn ''TypeError'' (py_repr ''NoneType'' @ '' object is not subscriptable'')) s1"
    using n l2 by (simp add: get_db_connection_def py_getitem_def py_type_name_def)
  have g1: "fst (get_db_connection example_world s1)
         = Inl (Exn ''TypeError'' (py_repr ''NoneType'' @ '' object is not subscriptable''))"
    unfolding g by (simp add: db_connection_failed_def)
  have g2: "fst (get_shipment_status example_world s1 ''ACME-REF-1001'')
         = ''Error retrieving shipment status: ''
             @ py_repr ''NoneType'' @ '' object is not subscriptable''"
    unfolding get_shipment_status_def get_shipment_status_body_def g
    by (simp add: db_connection_failed_def)
  from l c d' l2 g1 g2 show ?thesis by (intro exI [where x = s1] exI [where x = ?cfg] conjI)
qed

text \<open>From the initial state, in a world where every service answers, the connection is made.\<close>

lemma example_cold_start:
  "fst (get_db_connection example_world initial_state) = Inr 7
   \<and> db_connection (snd (get_db_connection example_world initial_state)) = Some 7
   \<and> db_credentials (snd (get_db_connection example_world initial_state))
       = JObject [(''username'', JString ''agent''), (''password'', JString ''pw'')]
   \<and> trace (snd (get_db_connection example_world initial_state))
       = [SsmGetParameters db_parameter_names, GetSecretValue ''arn:db-secret'',
          PgConnect ''db.internal'' ''logistics'' (JString ''agent'') (JString ''pw'')]"
  by (simp add: get_db_connection_def load_db_config_def build_db_config_def dict_getitem_def
        py_getitem_def example_world_def initial_state_def Let_def emit_def clock_def)

end
